theory Spec2Isabelle
  imports Complex_Main "HOL-Library.AList"
begin

section \<open>Asset types and the asset ID template\<close>

text \<open>
  Modelled from the spec: the enum \<open>assets.AssetType\<close> lives in the \<open>azureml.assets\<close>
  package, which is not part of the sources at hand.  The spec lists its members as
  data, environment, component and model; \<open>type_value\<close> is the \<open>.value\<close> of a member.
\<close>

datatype AssetType = DATA | ENVIRONMENT | COMPONENT | MODEL

fun type_value :: "AssetType \<Rightarrow> string" where
  "type_value DATA = ''data''"
| "type_value ENVIRONMENT = ''environment''"
| "type_value COMPONENT = ''component''"
| "type_value MODEL = ''model''"

text \<open>\<open>pluralize_asset_type\<close>, applied to the string value of the type.\<close>

definition pluralize_asset_type :: "string \<Rightarrow> string" where
  "pluralize_asset_type asset_type =
     (if asset_type \<noteq> ''data'' then asset_type @ ''s'' else asset_type)"

text \<open>\<open>ASSET_ID_TEMPLATE.substitute(registry_name=..., asset_type=..., asset_name=..., version=...)\<close>.\<close>

definition ASSET_ID_TEMPLATE :: "string \<Rightarrow> string \<Rightarrow> string \<Rightarrow> string \<Rightarrow> string" where
  "ASSET_ID_TEMPLATE registry_name asset_type asset_name version =
     ''azureml://registries/'' @ registry_name @ ''/'' @ asset_type @ ''/'' @ asset_name
       @ ''/versions/'' @ version"

definition PROD_SYSTEM_REGISTRY :: string where
  "PROD_SYSTEM_REGISTRY = ''azureml''"

definition LATEST_LABEL :: string where
  "LATEST_LABEL = ''latest''"

section \<open>Regular expressions as the script uses them\<close>

text \<open>
  The three patterns of the script use literals, the greedy \<open>(.+)\<close>, capturing groups,
  alternation, one optional non-capturing group and \<open>$\<close>.  A pattern is matched the way
  Python's backtracking matcher does it: alternatives are tried left to right, a greedy
  repetition tries the longest run first and gives characters back one at a time, and the
  first complete match wins.  The matcher is written in continuation-passing style: the
  continuation is the rest of the pattern, and a \<open>None\<close> from it makes the matcher backtrack.
\<close>

datatype regex =
    Lit string
  | AnyPlus
  | Group nat regex
  | Seq regex regex
  | Alt regex regex
  | Opt regex
  | Eos

text \<open>The groups of a match, by number; a group that took no part in the match is \<open>None\<close>.\<close>

type_synonym groups = "nat \<Rightarrow> string option"

definition newline :: char where
  "newline = CHR 0x0A"

text \<open>\<open>.*\<close> followed by the continuation: \<open>.\<close> matches every character but the newline.\<close>

fun any_star :: "(string \<Rightarrow> 'a option) \<Rightarrow> string \<Rightarrow> 'a option" where
  "any_star k [] = k []"
| "any_star k (c # cs) =
     (if c = newline then k (c # cs)
      else (case any_star k cs of Some r \<Rightarrow> Some r | None \<Rightarrow> k (c # cs)))"

fun any_plus :: "(string \<Rightarrow> 'a option) \<Rightarrow> string \<Rightarrow> 'a option" where
  "any_plus k [] = None"
| "any_plus k (c # cs) = (if c = newline then None else any_star k cs)"

primrec rmatch :: "regex \<Rightarrow> (string \<Rightarrow> groups \<Rightarrow> 'a option) \<Rightarrow> string \<Rightarrow> groups \<Rightarrow> 'a option" where
  "rmatch (Lit l) k s g = (if take (length l) s = l then k (drop (length l) s) g else None)"
| "rmatch AnyPlus k s g = any_plus (\<lambda>s'. k s' g) s"
| "rmatch (Group i r) k s g =
     rmatch r (\<lambda>s' g'. k s' (g'(i \<mapsto> take (length s - length s') s))) s g"
| "rmatch (Seq a b) k s g = rmatch a (rmatch b k) s g"
| "rmatch (Alt a b) k s g =
     (case rmatch a k s g of Some r \<Rightarrow> Some r | None \<Rightarrow> rmatch b k s g)"
| "rmatch (Opt a) k s g =
     (case rmatch a k s g of Some r \<Rightarrow> Some r | None \<Rightarrow> k s g)"
| "rmatch Eos k s g = (if s = [] \<or> s = [newline] then k s g else None)"

text \<open>
  \<open>pattern.match(s)\<close>: the match is anchored at the start of \<open>s\<close> (so the leading \<open>^\<close> of
  the patterns adds nothing) and need not reach its end; the result is the groups of the
  first match, \<open>None\<close> when there is none.
\<close>

definition re_match :: "regex \<Rightarrow> string \<Rightarrow> groups option" where
  "re_match r s = rmatch r (\<lambda>s' g. Some g) s (\<lambda>i. None)"

text \<open>\<open>^(?:azureml:)?(.+)(?::(.+)|@(.+))$\<close>\<close>

definition WORKSPACE_ASSET_PATTERN :: regex where
  "WORKSPACE_ASSET_PATTERN =
     Seq (Opt (Lit ''azureml:''))
      (Seq (Group 1 AnyPlus)
        (Seq (Alt (Seq (Lit '':'') (Group 2 AnyPlus)) (Seq (Lit ''@'') (Group 3 AnyPlus)))
          Eos))"

text \<open>
  \<open>^azureml://registries/(.+)/$asset_type/(.+)/(?:versions/(.+)|labels/(.+))\<close> with the
  pluralized asset type substituted.  The substituted text is read as a literal, which is
  what the compiled pattern does for the four asset types (none has a metacharacter).
\<close>

definition REGISTRY_ASSET_PATTERN :: "string \<Rightarrow> regex" where
  "REGISTRY_ASSET_PATTERN asset_type =
     Seq (Lit ''azureml://registries/'')
      (Seq (Group 1 AnyPlus)
        (Seq (Lit ''/'')
          (Seq (Lit asset_type)
            (Seq (Lit ''/'')
              (Seq (Group 2 AnyPlus)
                (Seq (Lit ''/'')
                  (Alt (Seq (Lit ''versions/'') (Group 3 AnyPlus))
                       (Seq (Lit ''labels/'') (Group 4 AnyPlus)))))))))"

datatype exn =
    TypeError | KeyError | IndexError | ValueError | ZeroDivisionError | AttributeError
  | FileNotFoundError | JSONDecodeError | Exception string

text \<open>
  \<open>get_parsed_details_from_asset_uri\<close>: the registry pattern is tried first, the workspace
  pattern only when it does not match.  The result is (name, version, label, registry), each
  a group of the match and so possibly \<open>None\<close>.
\<close>

type_synonym parsed = "string option \<times> string option \<times> string option \<times> string option"

definition get_parsed_details_from_asset_uri :: "string \<Rightarrow> string \<Rightarrow> exn + parsed" where
  "get_parsed_details_from_asset_uri asset_type asset_uri =
     (case re_match (REGISTRY_ASSET_PATTERN (pluralize_asset_type asset_type)) asset_uri of
        Some g \<Rightarrow> Inr (g 2, g 3, g 4, g 1)
      | None \<Rightarrow>
          (case re_match WORKSPACE_ASSET_PATTERN asset_uri of
             Some g \<Rightarrow> Inr (g 1, g 2, g 3, None)
           | None \<Rightarrow> Inl (Exception (asset_uri @ '' doesn't match workspace or registry pattern.''))))"

section \<open>Values, spec files and the outside world\<close>

text \<open>
  The values the script reads from or writes into a reference field of a spec file, and
  returns from \<open>get_environment_asset_id\<close>: \<open>None\<close>, a boolean or a string.
\<close>

datatype pyval = PyNone | PyBool bool | PyStr string

fun truthy :: "pyval \<Rightarrow> bool" where
  "truthy PyNone = False"
| "truthy (PyBool b) = b"
| "truthy (PyStr s) = (s \<noteq> [])"

fun py_str :: "pyval \<Rightarrow> string" where
  "py_str PyNone = ''None''"
| "py_str (PyBool b) = (if b then ''True'' else ''False'')"
| "py_str (PyStr s) = s"

text \<open>Truthiness of an optional string (\<open>if version_suffix:\<close>, \<open>registry or registry_name\<close>).\<close>

fun str_truthy :: "string option \<Rightarrow> bool" where
  "str_truthy None = False"
| "str_truthy (Some s) = (s \<noteq> [])"

fun the_default :: "'a \<Rightarrow> 'a option \<Rightarrow> 'a" where
  "the_default d None = d"
| "the_default d (Some x) = x"

fun py_or :: "string option \<Rightarrow> string \<Rightarrow> string" where
  "py_or None d = d"
| "py_or (Some s) d = (if s \<noteq> [] then s else d)"

text \<open>
  A spec file, as far as the script looks into it.  The YAML document is a mapping; the
  keys the script reads are fields, an absent key is \<open>None\<close>, and everything else of the
  document is carried along in \<open>spec_rest\<close> (\<open>job_rest\<close> for a job).
\<close>

record job_details =
  component :: "pyval option"
  job_rest :: string

record task_dict =
  task_environment :: "pyval option"
  task_rest :: string

record spec_dict =
  spec_name :: string
  environment :: "pyval option"
  task :: "task_dict option"
  jobs :: "(string \<times> job_details) list option"
  tags :: "(string \<times> pyval) list option"
  spec_rest :: string

text \<open>A file holds a YAML document, or text that \<open>YAML().load\<close> rejects.\<close>

datatype spec_file = Malformed | Doc spec_dict

text \<open>
  Modelled from the spec: \<open>AssetConfig\<close> (package \<open>azureml.assets\<close>, not part of the sources at
  hand) with the attributes the script reads: type, name, version (\<open>a_type\<close>, \<open>a_name\<close>,
  \<open>a_version\<close>), the location of the spec
  file, \<open>spec_as_object().type\<close> (the component type, \<open>None\<close> when the spec has none) and
  \<open>extra_config_as_object()\<close> (\<open>None\<close> when the call raises).
\<close>

record ModelConfig =
  description :: string

record AssetConfig =
  a_type :: AssetType
  a_name :: string
  a_version :: string
  spec_with_path :: string
  component_type :: "string option"
  extra_config :: "ModelConfig option"

definition PIPELINE :: string where "PIPELINE = ''pipeline''"
definition COMMAND :: string where "COMMAND = ''command''"
definition PARALLEL :: string where "PARALLEL = ''parallel''"

text \<open>
  What the registry CLI prints on success, after \<open>json.loads\<close>: text that is not JSON, one
  asset object (of which the script reads \<open>id\<close>), or a list of asset objects (of which it
  reads \<open>version\<close>).
\<close>

datatype json_out = NotJson | JsonAsset string | JsonAssets "string list"

record CompletedProcess =
  returncode :: int
  stdout :: json_out

text \<open>
  What the script does to the outside world is recorded as a trace: the commands it runs,
  the spec files it dumps, and the metadata updates it sends through the SDK client.
\<close>

datatype event =
    Ran "string list"
  | Dumped string spec_dict
  | UpdatedModelMetadata string string "(string \<times> string) list option" string

text \<open>
  The outside world, which the script does not control: the answer of the CLI to a command
  (it may depend on everything done so far), the path \<open>shutil.which\<close> finds for \<open>az\<close>, whether
  dumping a YAML file raises, and \<open>prepare_model\<close> of \<open>azureml.assets.model.model_utils\<close>.
\<close>

record ext =
  cli :: "event list \<Rightarrow> string list \<Rightarrow> CompletedProcess"
  which_az :: "string option"
  dump_raises :: "string \<Rightarrow> bool"
  prepare_model :: "string \<Rightarrow> ModelConfig \<Rightarrow> string \<Rightarrow> exn + (spec_dict \<times> bool)"

record world =
  files :: "string \<Rightarrow> spec_file option"
  trace :: "event list"
  failure_list :: "AssetConfig list"
  asset_ids :: "string \<Rightarrow> string option"

text \<open>The command-line arguments the publishing loop uses.\<close>

record args =
  arg_registry_name :: string
  arg_resource_group :: "string option"
  arg_workspace :: "string option"
  arg_version_suffix :: "string option"
  arg_debug :: bool

section \<open>Running commands and querying the registry\<close>

text \<open>
  \<open>run_command\<close>: \<open>subprocess.run\<close> raises \<open>TypeError\<close> when an argument is \<open>None\<close>, before
  anything is run.
\<close>

definition run_command :: "ext \<Rightarrow> string option list \<Rightarrow> world \<Rightarrow> (exn + CompletedProcess) \<times> world" where
  "run_command E cmd w =
     (case those cmd of
        None \<Rightarrow> (Inl TypeError, w)
      | Some argv \<Rightarrow> (Inr (cli E (trace w) argv), w\<lparr>trace := trace w @ [Ran argv]\<rparr>))"

definition get_asset_versions ::
  "ext \<Rightarrow> string \<Rightarrow> string option \<Rightarrow> string \<Rightarrow> world \<Rightarrow> (exn + string list) \<times> world" where
  "get_asset_versions E asset_type asset_name registry_name w =
     (case run_command E
             [Some ''az'', Some ''ml'', Some asset_type, Some ''list'',
              Some ''--name'', asset_name, Some ''--registry-name'', Some registry_name] w of
        (Inl e, w') \<Rightarrow> (Inl e, w')
      | (Inr result, w') \<Rightarrow>
          if returncode result \<noteq> 0 then (Inr [], w')
          else (case stdout result of
                  NotJson \<Rightarrow> (Inl JSONDecodeError, w')
                | JsonAsset i \<Rightarrow> (Inl TypeError, w')
                | JsonAssets vs \<Rightarrow> (Inr vs, w')))"

definition get_asset_details ::
  "ext \<Rightarrow> string \<Rightarrow> string option \<Rightarrow> string option \<Rightarrow> string \<Rightarrow> world
     \<Rightarrow> (exn + json_out option) \<times> world" where
  "get_asset_details E asset_type asset_name asset_version registry_name w =
     (case run_command E
             [Some ''az'', Some ''ml'', Some asset_type, Some ''show'',
              Some ''--name'', asset_name, Some ''--version'', asset_version,
              Some ''--registry-name'', Some registry_name] w of
        (Inl e, w') \<Rightarrow> (Inl e, w')
      | (Inr result, w') \<Rightarrow>
          if returncode result \<noteq> 0 then (Inr None, w')
          else (case stdout result of
                  NotJson \<Rightarrow> (Inl JSONDecodeError, w')
                | j \<Rightarrow> (Inr (Some j), w')))"

text \<open>Truthiness of what \<open>get_asset_details\<close> returns, and its \<open>['id']\<close>.\<close>

fun details_truthy :: "json_out option \<Rightarrow> bool" where
  "details_truthy None = False"
| "details_truthy (Some NotJson) = False"
| "details_truthy (Some (JsonAsset i)) = True"
| "details_truthy (Some (JsonAssets vs)) = (vs \<noteq> [])"

fun details_id :: "json_out \<Rightarrow> exn + string" where
  "details_id (JsonAsset i) = Inr i"
| "details_id j = Inl TypeError"

text \<open>
  The loop both resolvers share: \<open>for version in versions: if (details :=
  get_asset_details(...)) is not None: ...\<close>, which stops at the first version that the
  registry knows.
\<close>

fun first_details ::
  "ext \<Rightarrow> string \<Rightarrow> string option \<Rightarrow> string option list \<Rightarrow> string \<Rightarrow> world
     \<Rightarrow> (exn + json_out option) \<times> world" where
  "first_details E asset_type asset_name [] registry_name w = (Inr None, w)"
| "first_details E asset_type asset_name (version # versions) registry_name w =
     (case get_asset_details E asset_type asset_name version registry_name w of
        (Inl e, w') \<Rightarrow> (Inl e, w')
      | (Inr (Some details), w') \<Rightarrow> (Inr (Some details), w')
      | (Inr None, w') \<Rightarrow> first_details E asset_type asset_name versions registry_name w')"

section \<open>Resolving references\<close>

text \<open>\<open>str(x)\<close> of an optional string, as an f-string formats it.\<close>

fun opt_str :: "string option \<Rightarrow> string" where
  "opt_str None = ''None''"
| "opt_str (Some s) = s"

text \<open>
  The candidates of \<open>get_environment_asset_id\<close>: \<open>versions_to_try = [env_version]\<close>, and
  \<open>f"{env_version}-{version_suffix}"\<close> appended when the suffix is truthy.
\<close>

definition versions_to_try :: "string option \<Rightarrow> string option \<Rightarrow> string option list" where
  "versions_to_try env_version version_suffix =
     [env_version] @
     (case version_suffix of
        None \<Rightarrow> []
      | Some suffix \<Rightarrow> if suffix \<noteq> [] then [Some (opt_str env_version @ ''-'' @ suffix)] else [])"

text \<open>
  The last part of \<open>get_environment_asset_id\<close> (from \<open>env = None\<close> on): the ID of the first
  candidate the registry knows, \<open>None\<close> when it knows none.
\<close>

definition find_environment ::
  "ext \<Rightarrow> string option \<Rightarrow> string option \<Rightarrow> string option \<Rightarrow> string \<Rightarrow> world
     \<Rightarrow> (exn + pyval) \<times> world" where
  "find_environment E env_name env_version version_suffix registry_name w =
     (case first_details E (type_value ENVIRONMENT) env_name
             (versions_to_try env_version version_suffix) registry_name w of
        (Inl e, w') \<Rightarrow> (Inl e, w')
      | (Inr (Some env), w') \<Rightarrow>
          (case details_id env of
             Inl e \<Rightarrow> (Inl e, w')
           | Inr i \<Rightarrow> (Inr (PyStr i), w'))
      | (Inr None, w') \<Rightarrow> (Inr PyNone, w'))"

text \<open>
  \<open>get_environment_asset_id\<close>.  A reference that is not a string makes the pattern match
  raise \<open>TypeError\<close>, which the \<open>except\<close> clause catches like the parse error.  The three
  error paths return \<open>False\<close>; only the path where no tried version exists returns \<open>None\<close>.
\<close>

definition get_environment_asset_id ::
  "ext \<Rightarrow> pyval \<Rightarrow> string option \<Rightarrow> string \<Rightarrow> world \<Rightarrow> (exn + pyval) \<times> world" where
  "get_environment_asset_id E environment_id version_suffix registry_name w =
     (case (case environment_id of
              PyStr uri \<Rightarrow> get_parsed_details_from_asset_uri (type_value ENVIRONMENT) uri
            | _ \<Rightarrow> Inl TypeError) of
        Inl e \<Rightarrow> (Inr (PyBool False), w)
      | Inr (env_name, env_version, env_label, env_registry_name) \<Rightarrow>
          let registry_name = py_or env_registry_name registry_name
          in if str_truthy env_label then
               (if env_label = Some LATEST_LABEL then
                  (case get_asset_versions E (type_value ENVIRONMENT) env_name registry_name w of
                     (Inl e, w') \<Rightarrow> (Inl e, w')
                   | (Inr versions, w') \<Rightarrow>
                       (case versions of
                          v # _ \<Rightarrow>
                            find_environment E env_name (Some v) version_suffix registry_name w'
                        | [] \<Rightarrow> (Inr (PyBool False), w')))
                else (Inr (PyBool False), w))
             else find_environment E env_name env_version version_suffix registry_name w)"

text \<open>\<open>util.dump_yaml(d, path)\<close>: the file holds the document afterwards, unless the dump raises.\<close>

definition dump_yaml :: "ext \<Rightarrow> spec_dict \<Rightarrow> string \<Rightarrow> world \<Rightarrow> (exn + unit) \<times> world" where
  "dump_yaml E d path w =
     (if dump_raises E path then (Inl (Exception ''dump_yaml''), w)
      else (Inr (), w\<lparr>files := (files w)(path \<mapsto> Doc d), trace := trace w @ [Dumped path d]\<rparr>))"

text \<open>
  \<open>validate_update_component\<close>.  \<open>open\<close> is outside the \<open>try\<close>, so a missing file raises; a
  document that does not load returns \<open>False\<close>.  The environment reference is at the top
  level or under \<open>task\<close>.  The new reference is written whenever it \<open>is not None\<close>.

  When the dump raises, the handler does not get as far as \<open>return False\<close>: its log message
  formats \<open>asset.spec_path\<close>, and \<open>asset\<close> is no name of the function.  Called from the
  script it is the loop variable, an \<open>AssetConfig\<close>, which has no such attribute (called
  from elsewhere the name is unbound), so the handler itself raises and the exception leaves
  the function.
\<close>

definition validate_update_component ::
  "ext \<Rightarrow> string \<Rightarrow> string option \<Rightarrow> string \<Rightarrow> world \<Rightarrow> (exn + bool) \<times> world" where
  "validate_update_component E spec_path version_suffix registry_name w =
     (case files w spec_path of
        None \<Rightarrow> (Inl FileNotFoundError, w)
      | Some Malformed \<Rightarrow> (Inr False, w)
      | Some (Doc component_dict) \<Rightarrow>
          (case (case environment component_dict of
                   Some e \<Rightarrow> Some (e, \<lambda>v. component_dict\<lparr>environment := Some v\<rparr>)
                 | None \<Rightarrow>
                     (case task component_dict of
                        None \<Rightarrow> None
                      | Some t \<Rightarrow>
                          (case task_environment t of
                             None \<Rightarrow> None
                           | Some e \<Rightarrow>
                               Some (e, \<lambda>v. component_dict
                                                \<lparr>task := Some (t\<lparr>task_environment := Some v\<rparr>)\<rparr>)))) of
             None \<Rightarrow> (Inr False, w)
           | Some (current_env_id, set_environment) \<Rightarrow>
               (case get_environment_asset_id E current_env_id version_suffix registry_name w of
                  (Inl e, w') \<Rightarrow> (Inl e, w')
                | (Inr new_env_id, w') \<Rightarrow>
                    if new_env_id \<noteq> PyNone then
                      (let component_dict' =
                             (if current_env_id \<noteq> new_env_id then set_environment new_env_id
                              else component_dict)
                       in case dump_yaml E component_dict' spec_path w' of
                            (Inl e, w'') \<Rightarrow> (Inl AttributeError, w'')
                          | (Inr u, w'') \<Rightarrow> (Inr True, w''))
                    else (Inr False, w'))))"

text \<open>
  The body of the loop over the jobs of \<open>validate_and_prepare_pipeline_component\<close>, for a
  job that has a component reference.  It returns the job with the resolved asset ID
  together with the new value of \<open>registry_name\<close>, or \<open>None\<close> where the source returns \<open>False\<close>
  from inside the loop.  The assignment \<open>registry_name = registry or registry_name\<close> changes
  the function's own parameter, so the value is carried into the next iteration.  With a
  suffix, \<open>version + "-" + version_suffix\<close> raises \<open>TypeError\<close> when the reference has a label
  and so no version.
\<close>

definition pipeline_job ::
  "ext \<Rightarrow> string option \<Rightarrow> string \<Rightarrow> job_details \<Rightarrow> world
     \<Rightarrow> (exn + (job_details \<times> string) option) \<times> world" where
  "pipeline_job E version_suffix registry_name job w =
     (case (case the_default PyNone (component job) of
              PyStr uri \<Rightarrow> get_parsed_details_from_asset_uri (type_value COMPONENT) uri
            | _ \<Rightarrow> Inl TypeError) of
        Inl e \<Rightarrow> (Inr None, w)
      | Inr (name, version, label, registry) \<Rightarrow>
          (case (if str_truthy version_suffix then
                   (case version of
                      None \<Rightarrow> Inl TypeError
                    | Some v \<Rightarrow> Inr (Some (v @ ''-'' @ the_default [] version_suffix)))
                 else Inr version) of
             Inl e \<Rightarrow> (Inl e, w)
           | Inr final_version \<Rightarrow>
               (let registry_name = py_or registry registry_name
                in case first_details E (type_value COMPONENT) name [version, final_version]
                          registry_name w of
                     (Inl e, w') \<Rightarrow> (Inl e, w')
                   | (Inr asset_details, w') \<Rightarrow>
                       if \<not> details_truthy asset_details then (Inr None, w')
                       else
                         (case details_id (the_default NotJson asset_details) of
                            Inl e \<Rightarrow> (Inl e, w')
                          | Inr i \<Rightarrow>
                              (Inr (Some (job\<lparr>component := Some (PyStr i)\<rparr>, registry_name)),
                               w')))))"

text \<open>
  The loop itself: a job without a (truthy) component reference passes through as it is.
\<close>

fun pipeline_jobs ::
  "ext \<Rightarrow> string option \<Rightarrow> string \<Rightarrow> (string \<times> job_details) list \<Rightarrow> (string \<times> job_details) list
     \<Rightarrow> world \<Rightarrow> (exn + (string \<times> job_details) list option) \<times> world" where
  "pipeline_jobs E version_suffix registry_name [] updated_jobs w = (Inr (Some updated_jobs), w)"
| "pipeline_jobs E version_suffix registry_name ((job_name, job) # rest) updated_jobs w =
     (if \<not> truthy (the_default PyNone (component job)) then
        pipeline_jobs E version_suffix registry_name rest
          (AList.update job_name job updated_jobs) w
      else
        (case pipeline_job E version_suffix registry_name job w of
           (Inl e, w') \<Rightarrow> (Inl e, w')
         | (Inr None, w') \<Rightarrow> (Inr None, w')
         | (Inr (Some (job', registry_name')), w') \<Rightarrow>
             pipeline_jobs E version_suffix registry_name' rest
               (AList.update job_name job' updated_jobs) w'))"

text \<open>
  \<open>validate_and_prepare_pipeline_component\<close>: the document is dumped only after the loop has
  gone through every job.  The handler of a raising dump is the same as in
  \<open>validate_update_component\<close> and raises in the same way.
\<close>

definition validate_and_prepare_pipeline_component ::
  "ext \<Rightarrow> string \<Rightarrow> string option \<Rightarrow> string \<Rightarrow> world \<Rightarrow> (exn + bool) \<times> world" where
  "validate_and_prepare_pipeline_component E spec_path version_suffix registry_name w =
     (case files w spec_path of
        None \<Rightarrow> (Inl FileNotFoundError, w)
      | Some Malformed \<Rightarrow> (Inr False, w)
      | Some (Doc pipeline_dict) \<Rightarrow>
          (case jobs pipeline_dict of
             None \<Rightarrow> (Inl KeyError, w)
           | Some js \<Rightarrow>
               (case pipeline_jobs E version_suffix registry_name js [] w of
                  (Inl e, w') \<Rightarrow> (Inl e, w')
                | (Inr None, w') \<Rightarrow> (Inr False, w')
                | (Inr (Some updated_jobs), w') \<Rightarrow>
                    (case dump_yaml E (pipeline_dict\<lparr>jobs := Some updated_jobs\<rparr>) spec_path w' of
                       (Inl e, w'') \<Rightarrow> (Inl AttributeError, w'')
                     | (Inr u, w'') \<Rightarrow> (Inr True, w'')))))"

section \<open>Creating assets\<close>

definition asset_create_command ::
  "string option \<Rightarrow> string \<Rightarrow> string \<Rightarrow> string \<Rightarrow> string \<Rightarrow> string option \<Rightarrow> string option \<Rightarrow> bool
     \<Rightarrow> string option list" where
  "asset_create_command az asset_type asset_path registry_name version resource_group
       workspace debug_mode =
     [az, Some ''ml'', Some asset_type, Some ''create'',
      Some ''--file'', Some asset_path,
      Some ''--registry-name'', Some registry_name,
      Some ''--version'', Some version]
     @ (if str_truthy resource_group then [Some ''--resource-group'', resource_group] else [])
     @ (if str_truthy workspace then [Some ''--workspace'', workspace] else [])
     @ (if debug_mode then [Some ''--debug''] else [])"

text \<open>\<open>create_asset\<close>: a non-zero exit status puts the asset on the failure list.\<close>

definition create_asset ::
  "ext \<Rightarrow> AssetConfig \<Rightarrow> string \<Rightarrow> string option \<Rightarrow> string option \<Rightarrow> string \<Rightarrow> bool \<Rightarrow> world
     \<Rightarrow> (exn + unit) \<times> world" where
  "create_asset E asset registry_name resource_group workspace_name version debug_mode w =
     (case run_command E
             (asset_create_command (which_az E) (type_value (a_type asset))
                (spec_with_path asset) registry_name version resource_group workspace_name
                debug_mode) w of
        (Inl e, w') \<Rightarrow> (Inl e, w')
      | (Inr result, w') \<Rightarrow>
          if returncode result \<noteq> 0
          then (Inr (), w'\<lparr>failure_list := failure_list w' @ [asset]\<rparr>)
          else (Inr (), w'))"

text \<open>
  \<open>update_asset_metadata\<close>: only a model is updated.  The tags are read from the spec file
  inside a \<open>try\<close> (a file that cannot be read leaves them \<open>None\<close>), each value turned into a
  string; then the update is sent.  For every other type the function only logs that the
  update is not supported.
\<close>

definition tags_to_update :: "world \<Rightarrow> string \<Rightarrow> (string \<times> string) list option" where
  "tags_to_update w spec_path =
     (case files w spec_path of
        Some (Doc model_spec) \<Rightarrow>
          Some (map (\<lambda>(name, v). (name, py_str v)) (the_default [] (tags model_spec)))
      | _ \<Rightarrow> None)"

definition update_asset_metadata :: "AssetConfig \<Rightarrow> world \<Rightarrow> (exn + unit) \<times> world" where
  "update_asset_metadata asset w =
     (if a_type asset = MODEL then
        (case extra_config asset of
           None \<Rightarrow> (Inl (Exception ''extra_config_as_object''), w)
         | Some model_config \<Rightarrow>
             (Inr (), w\<lparr>trace := trace w @
                [UpdatedModelMetadata (a_name asset) (a_version asset)
                   (tags_to_update w (spec_with_path asset)) (description model_config)]\<rparr>))
      else (Inr (), w))"

text \<open>\<open>update_spec\<close> and \<open>prepare_model_for_registration\<close>.\<close>

definition update_spec :: "ext \<Rightarrow> spec_dict \<Rightarrow> string \<Rightarrow> world \<Rightarrow> bool \<times> world" where
  "update_spec E asset spec_path w =
     (case dump_yaml E asset spec_path w of
        (Inl e, w') \<Rightarrow> (False, w')
      | (Inr u, w') \<Rightarrow> (True, w'))"

definition prepare_model_for_registration ::
  "ext \<Rightarrow> ModelConfig \<Rightarrow> string \<Rightarrow> string \<Rightarrow> world \<Rightarrow> (exn + bool) \<times> world" where
  "prepare_model_for_registration E model_config spec_file_path registry_name w =
     (case prepare_model E spec_file_path model_config registry_name of
        Inl e \<Rightarrow> (Inl e, w)
      | Inr (model, success) \<Rightarrow>
          if success then (case update_spec E model spec_file_path w of (ok, w') \<Rightarrow> (Inr ok, w'))
          else (Inr False, w))"

section \<open>The publishing loop\<close>

text \<open>\<open>"*" in asset_names or asset.name in asset_names\<close>, with the names of the asset's type.\<close>

definition in_create_list :: "(string \<times> string list) list \<Rightarrow> AssetConfig \<Rightarrow> bool" where
  "in_create_list create_list asset =
     (let asset_names = the_default [] (map_of create_list (type_value (a_type asset)))
      in ''*'' \<in> set asset_names \<or> a_name asset \<in> set asset_names)"

text \<open>\<open>asset.version + "-" + passed_version if passed_version else asset.version\<close>\<close>

definition suffixed_version :: "string \<Rightarrow> string option \<Rightarrow> string" where
  "suffixed_version version passed_version =
     (if str_truthy passed_version then version @ ''-'' @ the_default [] passed_version
      else version)"

definition fail_asset :: "AssetConfig \<Rightarrow> world \<Rightarrow> (exn + unit) \<times> world" where
  "fail_asset asset w = (Inr (), w\<lparr>failure_list := failure_list w @ [asset]\<rparr>)"

text \<open>
  The body of the loop over the assets of one type: one asset's publish attempt.  An
  \<open>Inl\<close> is an exception nobody catches, which ends the script.
\<close>

definition publish_asset ::
  "ext \<Rightarrow> args \<Rightarrow> (string \<times> string list) list \<Rightarrow> AssetConfig \<Rightarrow> world \<Rightarrow> (exn + unit) \<times> world" where
  "publish_asset E A create_list asset w =
     (if \<not> in_create_list create_list asset then (Inr (), w)
      else
        (let registry_name = arg_registry_name A;
             passed_version = arg_version_suffix A;
             final_version = suffixed_version (a_version asset) passed_version;
             w1 = w\<lparr>asset_ids := (asset_ids w)(a_name asset \<mapsto>
                      ASSET_ID_TEMPLATE registry_name
                        (pluralize_asset_type (type_value (a_type asset)))
                        (a_name asset) final_version)\<rparr>;
             create = (\<lambda>version. create_asset E asset registry_name (arg_resource_group A)
                          (arg_workspace A) version (arg_debug A))
         in case get_asset_details E (type_value (a_type asset)) (Some (a_name asset))
                   (Some (a_version asset)) registry_name w1 of
              (Inl e, w2) \<Rightarrow> (Inl e, w2)
            | (Inr details, w2) \<Rightarrow>
                if details_truthy details then
                  (case update_asset_metadata asset w2 of (r, w3) \<Rightarrow> (Inr (), w3))
                else if a_type asset = COMPONENT then
                  (if component_type asset = Some PIPELINE then
                     (case validate_and_prepare_pipeline_component E (spec_with_path asset)
                             passed_version registry_name w2 of
                        (Inl e, w3) \<Rightarrow> (Inl e, w3)
                      | (Inr ok, w3) \<Rightarrow>
                          if \<not> ok then fail_asset asset w3 else create final_version w3)
                   else if component_type asset = None
                           \<or> component_type asset \<in> {Some COMMAND, Some PARALLEL} then
                     (case validate_update_component E (spec_with_path asset)
                             passed_version registry_name w2 of
                        (Inl e, w3) \<Rightarrow> (Inl e, w3)
                      | (Inr ok, w3) \<Rightarrow>
                          if \<not> ok then fail_asset asset w3 else create final_version w3)
                   else create final_version w2)
                else if a_type asset = MODEL then
                  (let final_version = a_version asset
                   in case extra_config asset of
                        None \<Rightarrow> fail_asset asset w2
                      | Some model_config \<Rightarrow>
                          (case prepare_model_for_registration E model_config
                                  (spec_with_path asset) registry_name w2 of
                             (Inl e, w3) \<Rightarrow> fail_asset asset w3
                           | (Inr ok, w3) \<Rightarrow>
                               if \<not> ok then fail_asset asset w3 else create final_version w3))
                else create final_version w2))"

text \<open>The loop over the assets of one type stops when an exception escapes.\<close>

fun publish_assets ::
  "ext \<Rightarrow> args \<Rightarrow> (string \<times> string list) list \<Rightarrow> AssetConfig list \<Rightarrow> world \<Rightarrow> (exn + unit) \<times> world" where
  "publish_assets E A create_list [] w = (Inr (), w)"
| "publish_assets E A create_list (asset # rest) w =
     (case publish_asset E A create_list asset w of
        (Inl e, w') \<Rightarrow> (Inl e, w')
      | (Inr u, w') \<Rightarrow> publish_assets E A create_list rest w')"

definition CREATE_ORDER :: "AssetType list" where
  "CREATE_ORDER = [DATA, ENVIRONMENT, COMPONENT, MODEL]"

text \<open>
  The assets of one type in the order they are published: for components the stable sort
  on "is a pipeline component" puts the pipeline components last.
\<close>

definition assets_to_publish :: "AssetConfig list \<Rightarrow> AssetType \<Rightarrow> AssetConfig list" where
  "assets_to_publish all_assets create_asset_type =
     (let by_type = filter (\<lambda>a. a_type a = create_asset_type) all_assets
      in if create_asset_type = COMPONENT
         then filter (\<lambda>a. component_type a \<noteq> Some PIPELINE) by_type
              @ filter (\<lambda>a. component_type a = Some PIPELINE) by_type
         else by_type)"

fun publish_types ::
  "ext \<Rightarrow> args \<Rightarrow> (string \<times> string list) list \<Rightarrow> AssetConfig list \<Rightarrow> AssetType list \<Rightarrow> world
     \<Rightarrow> (exn + unit) \<times> world" where
  "publish_types E A create_list all_assets [] w = (Inr (), w)"
| "publish_types E A create_list all_assets (create_asset_type # rest) w =
     (if map_of create_list (type_value create_asset_type) = None
      then publish_types E A create_list all_assets rest w
      else
        (case publish_assets E A create_list (assets_to_publish all_assets create_asset_type) w of
           (Inl e, w') \<Rightarrow> (Inl e, w')
         | (Inr u, w') \<Rightarrow> publish_types E A create_list all_assets rest w'))"

text \<open>The script up to the end of the publishing loop; an empty create list exits at once.\<close>

definition publish ::
  "ext \<Rightarrow> args \<Rightarrow> (string \<times> string list) list \<Rightarrow> AssetConfig list \<Rightarrow> world \<Rightarrow> (exn + unit) \<times> world" where
  "publish E A create_list all_assets w =
     (if create_list = [] then (Inr (), w)
      else publish_types E A create_list all_assets CREATE_ORDER
             (w\<lparr>failure_list := [], asset_ids := Map.empty\<rparr>))"

section \<open>Post-processing of detections\<close>

text \<open>
  The inference wrapper.  Coordinates are Python floats; the model computes with real
  numbers, so a quotient of the model is the exact value that the float division rounds.
  A row of a result array is \<open>(x1, y1, x2, y2, score)\<close> in pixels; an image size is
  \<open>(width, height)\<close>.  Dividing by a zero size raises \<open>ZeroDivisionError\<close>.
\<close>

type_synonym bbox = "real \<times> real \<times> real \<times> real \<times> real"

record box =
  topX :: real
  topY :: real
  bottomX :: real
  bottomY :: real

record od_prediction =
  pred_box :: box
  pred_label :: string
  pred_score :: real

record is_prediction = od_prediction +
  pred_polygon :: "real list list"

definition py_div :: "real \<Rightarrow> int \<Rightarrow> exn + real" where
  "py_div x n = (if n = 0 then Inl ZeroDivisionError else Inr (x / real_of_int n))"

text \<open>\<open>_normalize_polygon\<close>: each segment is a list of points \<open>(x, y)\<close>, flattened to
  \<open>x0, y0, x1, y1, ...\<close> with \<open>x\<close> divided by the width and \<open>y\<close> by the height.\<close>

fun normalize_points :: "(int \<times> int) list \<Rightarrow> int \<times> int \<Rightarrow> exn + real list" where
  "normalize_points [] image_size = Inr []"
| "normalize_points ((x, y) # points) image_size =
     (case py_div (real_of_int x) (fst image_size) of
        Inl e \<Rightarrow> Inl e
      | Inr x' \<Rightarrow>
          (case py_div (real_of_int y) (snd image_size) of
             Inl e \<Rightarrow> Inl e
           | Inr y' \<Rightarrow>
               (case normalize_points points image_size of
                  Inl e \<Rightarrow> Inl e
                | Inr normalized_points \<Rightarrow> Inr (x' # y' # normalized_points))))"

fun normalize_polygon :: "(int \<times> int) list list \<Rightarrow> int \<times> int \<Rightarrow> exn + real list list" where
  "normalize_polygon [] image_size = Inr []"
| "normalize_polygon (points # polygon) image_size =
     (case normalize_points points image_size of
        Inl e \<Rightarrow> Inl e
      | Inr normalized_points \<Rightarrow>
          (case normalize_polygon polygon image_size of
             Inl e \<Rightarrow> Inl e
           | Inr normalized_polygon \<Rightarrow> Inr (normalized_points # normalized_polygon)))"

text \<open>\<open>_remove_invalid_segments\<close>: \<open>[segment for segment in polygon if len(segment) >= 6]\<close>.\<close>

definition remove_invalid_segments :: "'a list list \<Rightarrow> 'a list list" where
  "remove_invalid_segments polygon = filter (\<lambda>segment. length segment \<ge> 6) polygon"

text \<open>The box of one detection: the four divisions of the dictionary literal.\<close>

definition normalized_box :: "bbox \<Rightarrow> int \<times> int \<Rightarrow> exn + box" where
  "normalized_box b image_size =
     (case b of (x1, y1, x2, y2, s) \<Rightarrow>
        (case py_div x1 (fst image_size) of Inl e \<Rightarrow> Inl e | Inr tx \<Rightarrow>
        (case py_div y1 (snd image_size) of Inl e \<Rightarrow> Inl e | Inr ty \<Rightarrow>
        (case py_div x2 (fst image_size) of Inl e \<Rightarrow> Inl e | Inr bx \<Rightarrow>
        (case py_div y2 (snd image_size) of Inl e \<Rightarrow> Inl e | Inr by \<Rightarrow>
           Inr \<lparr>topX = tx, topY = ty, bottomX = bx, bottomY = by\<rparr>)))))"

text \<open>\<open>CLASSES[label]\<close>\<close>

definition class_name :: "string list \<Rightarrow> nat \<Rightarrow> exn + string" where
  "class_name CLASSES label_ix =
     (if label_ix < length CLASSES then Inr (CLASSES ! label_ix) else Inl IndexError)"

text \<open>
  \<open>np.vstack(result)\<close> with the labels \<open>np.concatenate([np.full(n_i, i)])\<close> zipped to it: the
  rows of all classes in order, each with the index of its class.  Both calls raise
  \<open>ValueError\<close> on an empty list of classes.
\<close>

definition rows_with_labels :: "'r list list \<Rightarrow> exn + ('r \<times> nat) list" where
  "rows_with_labels result =
     (if result = [] then Inl ValueError
      else Inr (concat (map (\<lambda>(i, rows). map (\<lambda>r. (r, i)) rows) (enumerate 0 result))))"

fun od_boxes :: "string list \<Rightarrow> int \<times> int \<Rightarrow> (bbox \<times> nat) list \<Rightarrow> exn + od_prediction list" where
  "od_boxes CLASSES image_size [] = Inr []"
| "od_boxes CLASSES image_size ((b, label_ix) # rest) =
     (case normalized_box b image_size of Inl e \<Rightarrow> Inl e | Inr nb \<Rightarrow>
     (case class_name CLASSES label_ix of Inl e \<Rightarrow> Inl e | Inr l \<Rightarrow>
     (case od_boxes CLASSES image_size rest of Inl e \<Rightarrow> Inl e | Inr preds \<Rightarrow>
        Inr (\<lparr>pred_box = nb, pred_label = l, pred_score = snd (snd (snd (snd b)))\<rparr> # preds))))"

text \<open>\<open>_process_object_detection_results\<close>: one list of boxes per image of the batch.\<close>

fun process_object_detection_results ::
  "string list \<Rightarrow> bbox list list list \<Rightarrow> (int \<times> int) list \<Rightarrow> exn + od_prediction list list" where
  "process_object_detection_results CLASSES (result # results) (image_size # image_sizes) =
     (case rows_with_labels result of Inl e \<Rightarrow> Inl e | Inr rows \<Rightarrow>
     (case od_boxes CLASSES image_size rows of Inl e \<Rightarrow> Inl e | Inr cur_image_preds \<Rightarrow>
     (case process_object_detection_results CLASSES results image_sizes of
        Inl e \<Rightarrow> Inl e
      | Inr predictions \<Rightarrow> Inr (cur_image_preds # predictions))))"
| "process_object_detection_results CLASSES results image_sizes = Inr []"

text \<open>
  Instance segmentation.  \<open>bitmap_to_polygon\<close> belongs to the detection framework and is a
  parameter: it turns a mask into its contours, each a list of points \<open>(x, y)\<close> (the loop
  \<open>for x, y in points\<close> of \<open>_normalize_polygon\<close> reads them so).  The filter
  \<open>_remove_invalid_segments\<close> runs on these lists of points, before they are flattened.
  A detection whose polygon is empty after the filter is left out.
\<close>

fun is_boxes ::
  "('m \<Rightarrow> (int \<times> int) list list) \<Rightarrow> string list \<Rightarrow> int \<times> int \<Rightarrow> ((bbox \<times> nat) \<times> 'm) list
     \<Rightarrow> exn + is_prediction list" where
  "is_boxes bitmap_to_polygon CLASSES image_size [] = Inr []"
| "is_boxes bitmap_to_polygon CLASSES image_size (((b, label_ix), bitmap) # rest) =
     (let polygon = remove_invalid_segments (bitmap_to_polygon bitmap)
      in if length polygon > 0 then
           (case normalized_box b image_size of Inl e \<Rightarrow> Inl e | Inr nb \<Rightarrow>
           (case class_name CLASSES label_ix of Inl e \<Rightarrow> Inl e | Inr l \<Rightarrow>
           (case normalize_polygon polygon image_size of Inl e \<Rightarrow> Inl e | Inr np \<Rightarrow>
           (case is_boxes bitmap_to_polygon CLASSES image_size rest of
              Inl e \<Rightarrow> Inl e
            | Inr preds \<Rightarrow>
                Inr (\<lparr>pred_box = nb, pred_label = l, pred_score = snd (snd (snd (snd b))),
                      pred_polygon = np\<rparr> # preds)))))
         else is_boxes bitmap_to_polygon CLASSES image_size rest)"

text \<open>
  \<open>_process_instance_segmentation_results\<close>: per image the rows of all classes and the
  masks of all classes (\<open>concat_list\<close>), zipped.  \<open>masks[0]\<close> raises \<open>IndexError\<close> when the
  image has no mask at all.
\<close>

fun process_instance_segmentation_results ::
  "('m \<Rightarrow> (int \<times> int) list list) \<Rightarrow> string list \<Rightarrow> (bbox list list \<times> 'm list list) list
     \<Rightarrow> (int \<times> int) list \<Rightarrow> exn + is_prediction list list" where
  "process_instance_segmentation_results bitmap_to_polygon CLASSES
       ((predicted_bbox, predicted_mask) # batch_predictions) (image_size # image_sizes) =
     (case rows_with_labels predicted_bbox of Inl e \<Rightarrow> Inl e | Inr rows \<Rightarrow>
        (let masks = concat predicted_mask
         in if masks = [] then Inl IndexError
            else
              (case is_boxes bitmap_to_polygon CLASSES image_size (zip rows masks) of
                 Inl e \<Rightarrow> Inl e
               | Inr cur_image_preds \<Rightarrow>
                   (case process_instance_segmentation_results bitmap_to_polygon CLASSES
                           batch_predictions image_sizes of
                      Inl e \<Rightarrow> Inl e
                    | Inr predictions \<Rightarrow> Inr (cur_image_preds # predictions)))))"
| "process_instance_segmentation_results bitmap_to_polygon CLASSES batch_predictions image_sizes =
     Inr []"

section \<open>Notions used in the statements\<close>

text \<open>The two shapes of an asset URI: the registry pattern and the workspace pattern match.\<close>

definition matches_registry_shape :: "string \<Rightarrow> string \<Rightarrow> bool" where
  "matches_registry_shape asset_type asset_uri =
     (re_match (REGISTRY_ASSET_PATTERN (pluralize_asset_type asset_type)) asset_uri \<noteq> None)"

definition matches_workspace_shape :: "string \<Rightarrow> bool" where
  "matches_workspace_shape asset_uri = (re_match WORKSPACE_ASSET_PATTERN asset_uri \<noteq> None)"


text \<open>The command line that \<open>get_asset_details\<close> runs when the name and the version are present.\<close>

definition show_command :: "string \<Rightarrow> string \<Rightarrow> string \<Rightarrow> string \<Rightarrow> string list" where
  "show_command asset_type asset_name asset_version registry_name =
     [''az'', ''ml'', asset_type, ''show'', ''--name'', asset_name, ''--version'', asset_version,
      ''--registry-name'', registry_name]"

text \<open>An event that is a \<open>show\<close> query: it changes neither a file nor the registry.\<close>

fun is_show :: "event \<Rightarrow> bool" where
  "is_show (Ran (a # b # c # d # rest)) = (d = ''show'')"
| "is_show ev = False"

text \<open>
  The value of \<open>registry_name\<close> inside \<open>validate_and_prepare_pipeline_component\<close> after the
  loop has gone through the given jobs.
\<close>

fun registry_after :: "string \<Rightarrow> (string \<times> job_details) list \<Rightarrow> string" where
  "registry_after registry_name [] = registry_name"
| "registry_after registry_name ((job_name, job) # rest) =
     registry_after
       (if \<not> truthy (the_default PyNone (component job)) then registry_name
        else
          (case the_default PyNone (component job) of
             PyStr uri \<Rightarrow>
               (case get_parsed_details_from_asset_uri (type_value COMPONENT) uri of
                  Inr (name, version, label, registry) \<Rightarrow> py_or registry registry_name
                | Inl e \<Rightarrow> registry_name)
           | _ \<Rightarrow> registry_name))
       rest"

text \<open>
  A lower bound on how often a character occurs in any text a pattern matches; it is used
  to show that a greedy group cannot stop later than it does.
\<close>

primrec min_count :: "char \<Rightarrow> regex \<Rightarrow> nat" where
  "min_count c (Lit l) = count_list l c"
| "min_count c AnyPlus = 0"
| "min_count c (Group i r) = min_count c r"
| "min_count c (Seq a b) = min_count c a + min_count c b"
| "min_count c (Alt a b) = min (min_count c a) (min_count c b)"
| "min_count c (Opt a) = 0"
| "min_count c Eos = 0"

text \<open>
  Coordinates as the spec words them: a box and the points of a polygon segment as
  fractions of the image width (\<open>x\<close>) and height (\<open>y\<close>); a coordinate in the unit interval;
  a raw box and a raw point inside the image.
\<close>

definition fraction_box :: "bbox \<Rightarrow> int \<times> int \<Rightarrow> box" where
  "fraction_box b image_size =
     (case b of (x1, y1, x2, y2, s) \<Rightarrow>
        \<lparr>topX = x1 / real_of_int (fst image_size), topY = y1 / real_of_int (snd image_size),
         bottomX = x2 / real_of_int (fst image_size), bottomY = y2 / real_of_int (snd image_size)\<rparr>)"

definition fraction_points :: "(int \<times> int) list \<Rightarrow> int \<times> int \<Rightarrow> real list" where
  "fraction_points points image_size =
     concat (map (\<lambda>(x, y). [real_of_int x / real_of_int (fst image_size),
                              real_of_int y / real_of_int (snd image_size)]) points)"

definition in_unit :: "real \<Rightarrow> bool" where
  "in_unit c = (0 \<le> c \<and> c \<le> 1)"

definition unit_box :: "box \<Rightarrow> bool" where
  "unit_box b = (in_unit (topX b) \<and> in_unit (topY b) \<and> in_unit (bottomX b) \<and> in_unit (bottomY b))"

definition box_in_image :: "bbox \<Rightarrow> int \<times> int \<Rightarrow> bool" where
  "box_in_image b image_size =
     (case b of (x1, y1, x2, y2, s) \<Rightarrow>
        0 \<le> x1 \<and> x1 \<le> real_of_int (fst image_size) \<and> 0 \<le> y1 \<and> y1 \<le> real_of_int (snd image_size)
        \<and> 0 \<le> x2 \<and> x2 \<le> real_of_int (fst image_size) \<and> 0 \<le> y2 \<and> y2 \<le> real_of_int (snd image_size))"

definition point_in_image :: "int \<times> int \<Rightarrow> int \<times> int \<Rightarrow> bool" where
  "point_in_image image_size p =
     (0 \<le> fst p \<and> fst p \<le> fst image_size \<and> 0 \<le> snd p \<and> snd p \<le> snd image_size)"

section \<open>Concrete inputs\<close>

text \<open>
  A registry that knows the listed \<open>show\<close> commands and answers each with the given output;
  every other query fails, and every \<open>create\<close> succeeds.  Files can always be written, and
  \<open>prepare_model\<close> succeeds with \<open>prepared_model\<close>.
\<close>

definition prepared_model :: spec_dict where
  "prepared_model = \<lparr>spec_name = ''bert'', environment = None, task = None, jobs = None,
     tags = Some [(''task'', PyStr ''fill-mask'')], spec_rest = ''path: ./artifacts''\<rparr>"

definition registry_with :: "(string list \<times> json_out) list \<Rightarrow> ext" where
  "registry_with known =
     \<lparr>cli = (\<lambda>history argv.
              case map_of known argv of
                Some out \<Rightarrow> \<lparr>returncode = 0, stdout = out\<rparr>
              | None \<Rightarrow> \<lparr>returncode = (if ''create'' \<in> set argv then 0 else 1), stdout = NotJson\<rparr>),
      which_az = Some ''/usr/bin/az'',
      dump_raises = (\<lambda>path. False),
      prepare_model = (\<lambda>path model_config registry_name. Inr (prepared_model, True))\<rparr>"

definition target_args :: "string option \<Rightarrow> args" where
  "target_args suffix =
     \<lparr>arg_registry_name = ''target'', arg_resource_group = None, arg_workspace = None,
      arg_version_suffix = suffix, arg_debug = False\<rparr>"

definition disk :: "(string \<times> spec_file) list \<Rightarrow> world" where
  "disk fs = \<lparr>files = map_of fs, trace = [], failure_list = [], asset_ids = Map.empty\<rparr>"

text \<open>A command component whose environment reference carries the label \<open>stable\<close>.\<close>

definition train_spec :: spec_dict where
  "train_spec = \<lparr>spec_name = ''train'', environment = Some (PyStr ''azureml:sklearn@stable''),
     task = None, jobs = None, tags = None, spec_rest = ''command: python train.py''\<rparr>"

definition train :: AssetConfig where
  "train = \<lparr>a_type = COMPONENT, a_name = ''train'', a_version = ''1'',
     spec_with_path = ''train/spec.yaml'', component_type = Some COMMAND, extra_config = None\<rparr>"

definition train_exists :: ext where
  "train_exists = registry_with
     [(show_command ''component'' ''train'' ''1'' ''target'',
         JsonAsset ''azureml://registries/target/components/train/versions/1'')]"

text \<open>
  A pipeline component with two jobs: the first names a component of the registry
  \<open>azureml\<close> by its long URI, the second a component by the short form.  The second
  component exists in the target registry and not in \<open>azureml\<close>.
\<close>

definition flow_spec :: spec_dict where
  "flow_spec = \<lparr>spec_name = ''flow'', environment = None, task = None,
     jobs = Some [(''prep'', \<lparr>component = Some (PyStr ''azureml://registries/azureml/components/prep/versions/1''),
                              job_rest = ''''\<rparr>),
                  (''fit'', \<lparr>component = Some (PyStr ''azureml:train:2''), job_rest = ''''\<rparr>)],
     tags = None, spec_rest = ''''\<rparr>"

definition two_registries :: ext where
  "two_registries = registry_with
     [(show_command ''component'' ''prep'' ''1'' ''azureml'',
         JsonAsset ''azureml://registries/azureml/components/prep/versions/1''),
      (show_command ''component'' ''train'' ''2'' ''target'',
         JsonAsset ''azureml://registries/target/components/train/versions/2'')]"





text \<open>
  A pipeline component whose first job names its component by a label and whose second job
  names a component that no registry has.
\<close>

definition labelled_spec :: spec_dict where
  "labelled_spec = \<lparr>spec_name = ''labelled'', environment = None, task = None,
     jobs = Some [(''prep'', \<lparr>component = Some (PyStr ''azureml:prep@latest''), job_rest = ''''\<rparr>),
                  (''fit'', \<lparr>component = Some (PyStr ''azureml:train:2''), job_rest = ''''\<rparr>)],
     tags = None, spec_rest = ''''\<rparr>"

definition labelled :: AssetConfig where
  "labelled = \<lparr>a_type = COMPONENT, a_name = ''labelled'', a_version = ''3'',
     spec_with_path = ''labelled/spec.yaml'', component_type = Some PIPELINE, extra_config = None\<rparr>"

text \<open>A model asset, its spec file, and a registry that already has it.\<close>

definition bert :: AssetConfig where
  "bert = \<lparr>a_type = MODEL, a_name = ''bert'', a_version = ''4'',
     spec_with_path = ''bert/spec.yaml'', component_type = None,
     extra_config = Some \<lparr>description = ''A language model''\<rparr>\<rparr>"

definition bert_spec :: spec_dict where
  "bert_spec = \<lparr>spec_name = ''bert'', environment = None, task = None, jobs = None,
     tags = Some [(''task'', PyStr ''fill-mask''), (''preview'', PyBool True)],
     spec_rest = ''path: ./model''\<rparr>"

definition bert_exists :: ext where
  "bert_exists = registry_with
     [(show_command ''model'' ''bert'' ''4'' ''target'',
         JsonAsset ''azureml://registries/target/models/bert/versions/4'')]"

text \<open>
  Detections.  A mask is given by its contour here: the contour of a block of 2 by 2 pixels
  has four points, the contour of a block of 3 by 3 pixels has eight.
\<close>

definition square_contour :: "(int \<times> int) list" where
  "square_contour = [(1, 1), (1, 2), (2, 2), (2, 1)]"

definition blob_contour :: "(int \<times> int) list" where
  "blob_contour = [(1, 1), (1, 2), (1, 3), (2, 3), (3, 3), (3, 2), (3, 1), (2, 1)]"

definition cat_box :: bbox where
  "cat_box = (1, 1, 3, 3, 9 / 10)"

definition size_4x4 :: "int \<times> int" where
  "size_4x4 = (4, 4)"

definition cat_od :: od_prediction where
  "cat_od = \<lparr>pred_box = \<lparr>topX = 1 / 4, topY = 1 / 4, bottomX = 3 / 4, bottomY = 3 / 4\<rparr>,
             pred_label = ''cat'', pred_score = 9 / 10\<rparr>"

definition cat_is :: is_prediction where
  "cat_is = \<lparr>pred_box = \<lparr>topX = 1 / 4, topY = 1 / 4, bottomX = 3 / 4, bottomY = 3 / 4\<rparr>,
             pred_label = ''cat'', pred_score = 9 / 10,
             pred_polygon = [[1 / 4, 1 / 4, 1 / 4, 1 / 2, 1 / 4, 3 / 4, 1 / 2, 3 / 4,
                              3 / 4, 3 / 4, 3 / 4, 1 / 2, 3 / 4, 1 / 4, 1 / 2, 1 / 4]]\<rparr>"

definition cat_batch :: "(bbox list list \<times> (int \<times> int) list list list) list" where
  "cat_batch = [([[cat_box]], [[blob_contour]])]"

section \<open>Facts about the matcher\<close>

lemma count_list_drop_le: "count_list (drop n xs) c \<le> count_list xs c"
proof -
  have "count_list xs c = count_list (take n xs @ drop n xs) c" by simp
  also have "\<dots> = count_list (take n xs) c + count_list (drop n xs) c"
    by (simp only: count_list_append)
  finally show ?thesis by simp
qed

lemma any_star_Some:
  "any_star k s = Some x \<Longrightarrow> \<exists>n\<le>length s. k (drop n s) = Some x \<and> newline \<notin> set (take n s)"
proof (induction s)
  case Nil
  then show ?case by simp
next
  case (Cons c cs)
  show ?case
  proof (cases "c \<noteq> newline \<and> any_star k cs = Some x")
    case True
    with Cons.IH obtain n where "n \<le> length cs" "k (drop n cs) = Some x" "newline \<notin> set (take n cs)"
      by blast
    with True show ?thesis by (intro exI[of _ "Suc n"]) auto
  next
    case False
    with Cons.prems have "k (c # cs) = Some x" by (auto split: if_splits option.splits)
    then show ?thesis by (intro exI[of _ 0]) simp
  qed
qed

lemma any_plus_Some:
  assumes "any_plus k s = Some x"
  shows "\<exists>n. 0 < n \<and> n \<le> length s \<and> k (drop n s) = Some x \<and> newline \<notin> set (take n s)"
proof (cases s)
  case Nil
  with assms show ?thesis by simp
next
  case (Cons c cs)
  with assms have "c \<noteq> newline" "any_star k cs = Some x" by (auto split: if_splits)
  from any_star_Some[OF this(2)] obtain n where "n \<le> length cs" "k (drop n cs) = Some x" "newline \<notin> set (take n cs)"
    by blast
  with Cons \<open>c \<noteq> newline\<close> show ?thesis by (intro exI[of _ "Suc n"]) simp
qed

lemma rmatch_count:
  "rmatch r k s g = Some x \<Longrightarrow>
     \<exists>s' g'. k s' g' = Some x \<and> min_count c r + count_list s' c \<le> count_list s c"
proof (induction r arbitrary: k s g)
  case (Lit l)
  then have eq: "take (length l) s = l" and k: "k (drop (length l) s) g = Some x"
    by (auto split: if_splits)
  have "count_list s c = count_list (take (length l) s @ drop (length l) s) c" by simp
  also have "\<dots> = count_list l c + count_list (drop (length l) s) c"
    by (simp only: count_list_append eq)
  finally show ?case using k by auto
next
  case AnyPlus
  then have "any_plus (\<lambda>s'. k s' g) s = Some x" by simp
  from any_plus_Some[OF this] obtain n where "k (drop n s) g = Some x" by blast
  then show ?case using count_list_drop_le[of n s c] by auto
next
  case (Group i r)
  from Group.prems have "rmatch r (\<lambda>s' g'. k s' (g'(i \<mapsto> take (length s - length s') s))) s g = Some x"
    by simp
  from Group.IH[OF this] show ?case by auto
next
  case (Seq a b)
  from Seq.prems have "rmatch a (rmatch b k) s g = Some x" by simp
  from Seq.IH(1)[OF this] obtain s1 g1 where
    1: "rmatch b k s1 g1 = Some x" "min_count c a + count_list s1 c \<le> count_list s c" by blast
  from Seq.IH(2)[OF 1(1)] obtain s2 g2 where
    2: "k s2 g2 = Some x" "min_count c b + count_list s2 c \<le> count_list s1 c" by blast
  from 1(2) 2 show ?case by (intro exI[of _ s2] exI[of _ g2]) simp
next
  case (Alt a b)
  show ?case
  proof (cases "rmatch a k s g")
    case None
    with Alt.prems have "rmatch b k s g = Some x" by simp
    from Alt.IH(2)[OF this] obtain s' g' where "k s' g' = Some x" "min_count c b + count_list s' c \<le> count_list s c" by blast
    then show ?thesis by (intro exI[of _ s'] exI[of _ g']) simp
  next
    case (Some y)
    with Alt.prems have "rmatch a k s g = Some x" by simp
    from Alt.IH(1)[OF this] obtain s' g' where "k s' g' = Some x" "min_count c a + count_list s' c \<le> count_list s c" by blast
    then show ?thesis by (intro exI[of _ s'] exI[of _ g']) simp
  qed
next
  case (Opt a)
  show ?case
  proof (cases "rmatch a k s g")
    case None
    with Opt.prems show ?thesis by auto
  next
    case (Some y)
    with Opt.prems have "rmatch a k s g = Some x" by simp
    from Opt.IH[OF this] obtain s' g' where "k s' g' = Some x" "min_count c a + count_list s' c \<le> count_list s c" by blast
    then show ?thesis by (intro exI[of _ s'] exI[of _ g']) simp
  qed
next
  case Eos
  then show ?case by (auto split: if_splits)
qed

lemma rmatch_needs:
  "count_list s c < min_count c r \<Longrightarrow> rmatch r k s g = None"
proof (rule ccontr)
  assume a: "count_list s c < min_count c r" and "rmatch r k s g \<noteq> None"
  then obtain x where "rmatch r k s g = Some x" by auto
  from rmatch_count[OF this, of c] a show False by auto
qed

lemma any_star_all_None:
  "(\<And>n. n \<le> length s \<Longrightarrow> k (drop n s) = None) \<Longrightarrow> any_star k s = None"
proof (rule ccontr)
  assume a: "\<And>n. n \<le> length s \<Longrightarrow> k (drop n s) = None" and "any_star k s \<noteq> None"
  then obtain x where "any_star k s = Some x" by auto
  from any_star_Some[OF this] a show False by auto
qed

lemma any_star_longest:
  assumes "newline \<notin> set xs" and "k ys = Some x"
    and "\<And>n. 0 < n \<Longrightarrow> n \<le> length ys \<Longrightarrow> k (drop n ys) = None"
  shows "any_star k (xs @ ys) = Some x"
  using assms(1)
proof (induction xs)
  case Nil
  show ?case
  proof (cases ys)
    case Nil
    with assms(2) show ?thesis by simp
  next
    case (Cons c cs)
    have "any_star k cs = None"
    proof (rule any_star_all_None)
      fix n assume "n \<le> length cs"
      with assms(3)[of "Suc n"] Cons show "k (drop n cs) = None" by simp
    qed
    with Cons assms(2) show ?thesis by auto
  qed
next
  case (Cons c cs)
  then show ?case by auto
qed

lemma any_plus_longest:
  assumes "xs \<noteq> []" and "newline \<notin> set xs" and "k ys = Some x"
    and "\<And>n. 0 < n \<Longrightarrow> n \<le> length ys \<Longrightarrow> k (drop n ys) = None"
  shows "any_plus k (xs @ ys) = Some x"
proof -
  from assms(1) obtain c cs where xs: "xs = c # cs" by (cases xs) auto
  with assms(2) have "c \<noteq> newline" "newline \<notin> set cs" by auto
  from any_star_longest[OF this(2) assms(3) assms(4)] have "any_star k (cs @ ys) = Some x" by simp
  with xs \<open>c \<noteq> newline\<close> show ?thesis by simp
qed


lemma rmatch_Lit_append: "rmatch (Lit l) k (l @ s) g = k s g"
  by simp

lemma rmatch_Group_AnyPlus:
  "rmatch (Group i AnyPlus) k s g =
     any_plus (\<lambda>s'. k s' (g(i \<mapsto> take (length s - length s') s))) s"
  by simp

lemma group_longest:
  assumes "xs \<noteq> []" and "newline \<notin> set xs" and "k ys (g(i \<mapsto> xs)) = Some x"
    and "\<And>n g'. 0 < n \<Longrightarrow> n \<le> length ys \<Longrightarrow> k (drop n ys) g' = None"
  shows "rmatch (Group i AnyPlus) k (xs @ ys) g = Some x"
  unfolding rmatch_Group_AnyPlus
  by (rule any_plus_longest) (use assms in simp_all)

lemma count_plural: "count_list (pluralize_asset_type (type_value t)) CHR ''/'' = 0"
  by (cases t) (simp_all add: pluralize_asset_type_def)

lemma count_zero: "c \<notin> set xs \<Longrightarrow> count_list xs c = 0"
  by (induction xs) auto

lemma registry_roundtrip:
  fixes tp :: string
  assumes reg: "registry \<noteq> []" "newline \<notin> set registry"
    and name: "name \<noteq> []" "newline \<notin> set name" "CHR ''/'' \<notin> set name"
    and ver: "version \<noteq> []" "newline \<notin> set version" "CHR ''/'' \<notin> set version"
    and tp: "count_list tp CHR ''/'' = 0"
  shows "re_match (REGISTRY_ASSET_PATTERN tp) (ASSET_ID_TEMPLATE registry tp name version)
           = Some ((\<lambda>i. None)(1 \<mapsto> registry, 2 \<mapsto> name, 3 \<mapsto> version))"
proof -
  let ?tail = "Alt (Seq (Lit ''versions/'') (Group 3 AnyPlus)) (Seq (Lit ''labels/'') (Group 4 AnyPlus))"
  let ?r2 = "Seq (Lit ''/'') ?tail"
  let ?r1 = "Seq (Lit ''/'') (Seq (Lit tp) (Seq (Lit ''/'') (Seq (Group 2 AnyPlus) ?r2)))"
  let ?k = "\<lambda>(s'::string) (g::groups). Some g"
  let ?g0 = "(\<lambda>i. None) :: groups"
  let ?g1 = "?g0(1 \<mapsto> registry)"
  let ?g2 = "?g1(2 \<mapsto> name)"
  let ?g3 = "?g2(3 \<mapsto> version)"
  have cn: "count_list name CHR ''/'' = 0" and cv: "count_list version CHR ''/'' = 0"
    using name ver by (simp_all add: count_zero)
  \<comment> \<open>group 3\<close>
  have g3: "rmatch (Group 3 AnyPlus) ?k version ?g2 = Some ?g3"
    using group_longest[of version ?k "[]" ?g2 3 ?g3] ver by simp
  have tail: "rmatch ?tail ?k (''versions/'' @ version) ?g2 = Some ?g3"
    using g3 by simp
  have r2: "rmatch ?r2 ?k (''/'' @ ''versions/'' @ version) ?g2 = Some ?g3"
    using tail by simp
  \<comment> \<open>group 2\<close>
  have fail2: "rmatch ?r2 ?k (drop n (''/'' @ ''versions/'' @ version)) g' = None" if "0 < n" for n g'
  proof (rule rmatch_needs[where c = "CHR ''/''"])
    from that obtain m where n: "n = Suc m" by (cases n) auto
    have "count_list (drop n (''/'' @ ''versions/'' @ version)) CHR ''/''
            = count_list (drop m (''versions/'' @ version)) CHR ''/''" by (simp add: n)
    also have "\<dots> \<le> count_list (''versions/'' @ version) CHR ''/''" by (rule count_list_drop_le)
    also have "\<dots> = 1" using cv by simp
    finally show "count_list (drop n (''/'' @ ''versions/'' @ version)) CHR ''/'' < min_count CHR ''/'' ?r2"
      by simp
  qed
  have g2: "rmatch (Group 2 AnyPlus) (rmatch ?r2 ?k) (name @ ''/'' @ ''versions/'' @ version) ?g1 = Some ?g3"
    by (rule group_longest) (use name r2 fail2 in simp_all)
  have r1: "rmatch ?r1 ?k (''/'' @ tp @ ''/'' @ name @ ''/'' @ ''versions/'' @ version) ?g1 = Some ?g3"
    using g2 by (simp only: rmatch.simps(4) rmatch_Lit_append)
  \<comment> \<open>group 1\<close>
  have fail1: "rmatch ?r1 ?k (drop n (''/'' @ tp @ ''/'' @ name @ ''/'' @ ''versions/'' @ version)) g' = None"
    if "0 < n" for n g'
  proof (rule rmatch_needs[where c = "CHR ''/''"])
    from that obtain m where n: "n = Suc m" by (cases n) auto
    have "count_list (drop n (''/'' @ tp @ ''/'' @ name @ ''/'' @ ''versions/'' @ version)) CHR ''/''
            = count_list (drop m (tp @ ''/'' @ name @ ''/'' @ ''versions/'' @ version)) CHR ''/''"
      by (simp add: n)
    also have "\<dots> \<le> count_list (tp @ ''/'' @ name @ ''/'' @ ''versions/'' @ version) CHR ''/''"
      by (rule count_list_drop_le)
    also have "\<dots> = 3" using cv cn tp by simp
    finally show "count_list (drop n (''/'' @ tp @ ''/'' @ name @ ''/'' @ ''versions/'' @ version)) CHR ''/''
        < min_count CHR ''/'' ?r1"
      by simp
  qed
  have g1: "rmatch (Group 1 AnyPlus) (rmatch ?r1 ?k)
              (registry @ ''/'' @ tp @ ''/'' @ name @ ''/'' @ ''versions/'' @ version) ?g0 = Some ?g3"
    by (rule group_longest) (use reg r1 fail1 in simp_all)
  have "rmatch (REGISTRY_ASSET_PATTERN tp) ?k
          (''azureml://registries/'' @ registry @ ''/'' @ tp @ ''/'' @ name @ ''/'' @ ''versions/'' @ version) ?g0
        = Some ?g3"
    unfolding REGISTRY_ASSET_PATTERN_def using g1
    by (simp only: rmatch.simps(4) rmatch_Lit_append)
  then show ?thesis
    by (simp add: re_match_def ASSET_ID_TEMPLATE_def)
qed


lemma rmatch_Seq: "rmatch (Seq a b) k = rmatch a (rmatch b k)"
  by (intro ext) simp

lemma group_Some:
  assumes "rmatch (Group i AnyPlus) k s g = Some x"
  shows "\<exists>n. 0 < n \<and> n \<le> length s \<and> k (drop n s) (g(i \<mapsto> take n s)) = Some x"
proof -
  from assms have "any_plus (\<lambda>s'. k s' (g(i \<mapsto> take (length s - length s') s))) s = Some x"
    by simp
  from any_plus_Some[OF this] obtain n where "0 < n" "n \<le> length s"
    "k (drop n s) (g(i \<mapsto> take (length s - length (drop n s)) s)) = Some x" by blast
  then show ?thesis by (intro exI[of _ n]) simp
qed

lemma lit_Some: "rmatch (Lit l) k s g = Some x \<Longrightarrow> k (drop (length l) s) g = Some x"
  by (simp split: if_splits)

lemma alt_Some:
  "rmatch (Alt a b) k s g = Some x \<Longrightarrow> rmatch a k s g = Some x \<or> rmatch b k s g = Some x"
  by (simp split: option.splits)

lemma opt_Some:
  "rmatch (Opt a) k s g = Some x \<Longrightarrow> rmatch a k s g = Some x \<or> k s g = Some x"
  by (simp split: option.splits)

lemma registry_groups:
  assumes "re_match (REGISTRY_ASSET_PATTERN tp) u = Some g"
  shows "\<exists>registry name v. g 1 = Some registry \<and> g 2 = Some name \<and>
           (g 3 = Some v \<and> g 4 = None \<or> g 3 = None \<and> g 4 = Some v)"
proof -
  let ?k = "\<lambda>(s'::string) (g::groups). Some g"
  let ?v = "Seq (Lit ''versions/'') (Group 3 AnyPlus)"
  let ?l = "Seq (Lit ''labels/'') (Group 4 AnyPlus)"
  let ?r2 = "Seq (Lit ''/'') (Alt ?v ?l)"
  let ?r1 = "Seq (Lit ''/'') (Seq (Lit tp) (Seq (Lit ''/'') (Seq (Group 2 AnyPlus) ?r2)))"
  from assms have "rmatch (Lit ''azureml://registries/'') (rmatch (Group 1 AnyPlus) (rmatch ?r1 ?k)) u (\<lambda>i. None) = Some g"
    by (simp only: re_match_def REGISTRY_ASSET_PATTERN_def rmatch_Seq)
  from group_Some[OF lit_Some[OF this]] obtain s1 registry where
    1: "rmatch ?r1 ?k s1 ((\<lambda>i. None)(1 \<mapsto> registry)) = Some g" by blast
  let ?g1 = "(\<lambda>i. None)(1 \<mapsto> registry) :: groups"
  from 1 have "rmatch (Lit ''/'') (rmatch (Lit tp) (rmatch (Lit ''/'') (rmatch (Group 2 AnyPlus) (rmatch ?r2 ?k)))) s1 ?g1 = Some g"
    by (simp only: rmatch_Seq)
  from group_Some[OF lit_Some[OF lit_Some[OF lit_Some[OF this]]]] obtain s2 name where
    2: "rmatch ?r2 ?k s2 (?g1(2 \<mapsto> name)) = Some g" by blast
  let ?g2 = "?g1(2 \<mapsto> name)"
  from 2 have "rmatch (Lit ''/'') (rmatch (Alt ?v ?l) ?k) s2 ?g2 = Some g"
    by (simp only: rmatch_Seq)
  from lit_Some[OF this] obtain s3 where 3: "rmatch (Alt ?v ?l) ?k s3 ?g2 = Some g" by blast
  from alt_Some[OF 3] consider "rmatch ?v ?k s3 ?g2 = Some g" | "rmatch ?l ?k s3 ?g2 = Some g"
    by (elim disjE)
  then show ?thesis
  proof cases
    case 1
    then have "rmatch (Lit ''versions/'') (rmatch (Group 3 AnyPlus) ?k) s3 ?g2 = Some g"
      by (simp only: rmatch_Seq)
    from group_Some[OF lit_Some[OF this]] obtain v where "g = ?g2(3 \<mapsto> v)" by auto
    then show ?thesis by auto
  next
    case 2
    then have "rmatch (Lit ''labels/'') (rmatch (Group 4 AnyPlus) ?k) s3 ?g2 = Some g"
      by (simp only: rmatch_Seq)
    from group_Some[OF lit_Some[OF this]] obtain v where "g = ?g2(4 \<mapsto> v)" by auto
    then show ?thesis by auto
  qed
qed

lemma workspace_groups:
  assumes "re_match WORKSPACE_ASSET_PATTERN u = Some g"
  shows "\<exists>name v. g 1 = Some name \<and> (g 2 = Some v \<and> g 3 = None \<or> g 2 = None \<and> g 3 = Some v)"
proof -
  let ?k = "\<lambda>(s'::string) (g::groups). Some g"
  let ?v = "Seq (Lit '':'') (Group 2 AnyPlus)"
  let ?l = "Seq (Lit ''@'') (Group 3 AnyPlus)"
  let ?r1 = "Seq (Alt ?v ?l) Eos"
  let ?r0 = "Seq (Group 1 AnyPlus) ?r1"
  from assms have "rmatch (Opt (Lit ''azureml:'')) (rmatch ?r0 ?k) u (\<lambda>i. None) = Some g"
    by (simp only: re_match_def WORKSPACE_ASSET_PATTERN_def rmatch_Seq)
  from opt_Some[OF this] have "\<exists>s0. rmatch ?r0 ?k s0 (\<lambda>i. None) = Some g"
  proof (elim disjE)
    assume "rmatch (Lit ''azureml:'') (rmatch ?r0 ?k) u (\<lambda>i. None) = Some g"
    from lit_Some[OF this] show ?thesis by (rule exI)
  next
    assume "rmatch ?r0 ?k u (\<lambda>i. None) = Some g"
    then show ?thesis by (rule exI)
  qed
  then obtain s0 where "rmatch (Group 1 AnyPlus) (rmatch ?r1 ?k) s0 (\<lambda>i. None) = Some g"
    unfolding rmatch_Seq by blast
  from group_Some[OF this] obtain s1 name where
    1: "rmatch ?r1 ?k s1 ((\<lambda>i. None)(1 \<mapsto> name)) = Some g" by blast
  let ?g1 = "(\<lambda>i. None)(1 \<mapsto> name) :: groups"
  from 1 have a: "rmatch (Alt ?v ?l) (rmatch Eos ?k) s1 ?g1 = Some g"
    by (simp only: rmatch_Seq)
  have eos: "rmatch Eos ?k s' g' = Some g \<Longrightarrow> g' = g" for s' g'
    by (simp split: if_splits)
  from alt_Some[OF a] consider "rmatch ?v (rmatch Eos ?k) s1 ?g1 = Some g" | "rmatch ?l (rmatch Eos ?k) s1 ?g1 = Some g"
    by (elim disjE)
  then show ?thesis
  proof cases
    case 1
    then have "rmatch (Lit '':'') (rmatch (Group 2 AnyPlus) (rmatch Eos ?k)) s1 ?g1 = Some g"
      by (simp only: rmatch_Seq)
    from group_Some[OF lit_Some[OF this]] obtain v s' where "rmatch Eos ?k s' (?g1(2 \<mapsto> v)) = Some g" by blast
    from eos[OF this] show ?thesis by auto
  next
    case 2
    then have "rmatch (Lit ''@'') (rmatch (Group 3 AnyPlus) (rmatch Eos ?k)) s1 ?g1 = Some g"
      by (simp only: rmatch_Seq)
    from group_Some[OF lit_Some[OF this]] obtain v s' where "rmatch Eos ?k s' (?g1(3 \<mapsto> v)) = Some g" by blast
    from eos[OF this] show ?thesis by auto
  qed
qed


section \<open>Facts about the queries and the pipeline loop\<close>

lemma run_command_all:
  "run_command E (map Some argv) w = (Inr (cli E (trace w) argv), w\<lparr>trace := trace w @ [Ran argv]\<rparr>)"
proof -
  have "those (map Some argv) = Some argv" by (induction argv) simp_all
  then show ?thesis by (simp add: run_command_def)
qed

lemma get_asset_details_Some:
  "get_asset_details E asset_type (Some n) (Some v) r w =
     (let result = cli E (trace w) (show_command asset_type n v r);
          w' = w\<lparr>trace := trace w @ [Ran (show_command asset_type n v r)]\<rparr>
      in if returncode result \<noteq> 0 then (Inr None, w')
         else (case stdout result of
                 NotJson \<Rightarrow> (Inl JSONDecodeError, w')
               | j \<Rightarrow> (Inr (Some j), w')))"
  using run_command_all[of E "show_command asset_type n v r" w]
  by (simp add: get_asset_details_def show_command_def Let_def)

lemma get_asset_details_missing:
  assumes "returncode (cli E (trace w) (show_command asset_type n v r)) \<noteq> 0"
  shows "get_asset_details E asset_type (Some n) (Some v) r w =
           (Inr None, w\<lparr>trace := trace w @ [Ran (show_command asset_type n v r)]\<rparr>)"
  using assms by (simp add: get_asset_details_Some Let_def)


lemma is_show_show_command [simp]: "is_show (Ran (show_command t n v r))"
  by (simp add: show_command_def)

lemma run_command_effect:
  assumes "run_command E cmd w = (res, w')"
  shows "w' = w \<or> (\<exists>argv. those cmd = Some argv \<and> w' = w\<lparr>trace := trace w @ [Ran argv]\<rparr>)"
  using assms by (auto simp: run_command_def split: option.splits)

lemma those_Cons_Some: "those (Some a # xs) = Some ys \<longleftrightarrow> (\<exists>zs. ys = a # zs \<and> those xs = Some zs)"
  by (auto split: option.splits)

lemma get_asset_details_effect:
  assumes "get_asset_details E asset_type n v r w = (res, w')"
  shows "\<exists>evs. w' = w\<lparr>trace := trace w @ evs\<rparr> \<and> list_all is_show evs"
proof -
  let ?cmd = "[Some ''az'', Some ''ml'', Some asset_type, Some ''show'',
              Some ''--name'', n, Some ''--version'', v,
              Some ''--registry-name'', Some r]"
  obtain res0 w0 where rc: "run_command E ?cmd w = (res0, w0)" by (cases "run_command E ?cmd w")
  with assms have w': "w' = w0"
    by (auto simp: get_asset_details_def split: sum.splits if_splits json_out.splits)
  from run_command_effect[OF rc] show ?thesis
  proof
    assume "w0 = w"
    with w' show ?thesis by (intro exI[of _ "[]"]) simp
  next
    assume "\<exists>argv. those ?cmd = Some argv \<and> w0 = w\<lparr>trace := trace w @ [Ran argv]\<rparr>"
    then obtain argv where a: "those ?cmd = Some argv" "w0 = w\<lparr>trace := trace w @ [Ran argv]\<rparr>" by blast
    from a(1) obtain rest where "argv = ''az'' # ''ml'' # asset_type # ''show'' # rest"
      by (auto simp: those_Cons_Some)
    then have "is_show (Ran argv)" by simp
    with a(2) w' show ?thesis by (intro exI[of _ "[Ran argv]"]) simp
  qed
qed

lemma first_details_effect:
  "first_details E asset_type n vs r w = (res, w') \<Longrightarrow>
     \<exists>evs. w' = w\<lparr>trace := trace w @ evs\<rparr> \<and> list_all is_show evs"
proof (induction vs arbitrary: w)
  case Nil
  then show ?case by (intro exI[of _ "[]"]) simp
next
  case (Cons v vs)
  obtain r1 w1 where g: "get_asset_details E asset_type n v r w = (r1, w1)"
    by (cases "get_asset_details E asset_type n v r w")
  from get_asset_details_effect[OF g] obtain evs1 where
    1: "w1 = w\<lparr>trace := trace w @ evs1\<rparr>" "list_all is_show evs1" by blast
  show ?case
  proof (cases "r1 = Inr None")
    case True
    with Cons.prems g have "first_details E asset_type n vs r w1 = (res, w')" by simp
    from Cons.IH[OF this] obtain evs2 where
      2: "w' = w1\<lparr>trace := trace w1 @ evs2\<rparr>" "list_all is_show evs2" by blast
    from 1 2 show ?thesis by (intro exI[of _ "evs1 @ evs2"]) simp
  next
    case False
    with Cons.prems g have "w' = w1" by (auto split: sum.splits option.splits)
    with 1 show ?thesis by blast
  qed
qed

lemma first_details_missing:
  assumes "\<And>h v. v \<in> set vs \<Longrightarrow> returncode (cli E h (show_command asset_type n v r)) \<noteq> 0"
  shows "\<exists>w'. first_details E asset_type (Some n) (map Some vs) r w = (Inr None, w')"
  using assms
proof (induction vs arbitrary: w)
  case Nil
  then show ?case by simp
next
  case (Cons v vs)
  have "returncode (cli E (trace w) (show_command asset_type n v r)) \<noteq> 0"
    using Cons.prems[of v] by simp
  from get_asset_details_missing[OF this] Cons.IH Cons.prems
  show ?case by simp
qed

lemma pipeline_job_world:
  assumes "pipeline_job E suffix r job w = (res, w')"
  shows "w' = w \<or> (\<exists>name versions reg r1.
            first_details E (type_value COMPONENT) name versions reg w = (r1, w'))"
  using assms unfolding pipeline_job_def Let_def
  by (auto simp del: first_details.simps type_value.simps
           split: sum.splits prod.splits if_splits option.splits pyval.splits)

lemma pipeline_job_effect:
  assumes "pipeline_job E suffix r job w = (res, w')"
  shows "\<exists>evs. w' = w\<lparr>trace := trace w @ evs\<rparr> \<and> list_all is_show evs"
  using pipeline_job_world[OF assms]
proof
  assume "w' = w"
  then show ?thesis by (intro exI[of _ "[]"]) simp
next
  assume "\<exists>name versions reg r1.
            first_details E (type_value COMPONENT) name versions reg w = (r1, w')"
  then show ?thesis using first_details_effect by blast
qed

lemma pipeline_job_registry:
  assumes "pipeline_job E suffix r job w = (Inr (Some (job', r')), w')"
  shows "r' = registry_after r [(jn, job)] \<or> \<not> truthy (the_default PyNone (component job))"
  using assms unfolding pipeline_job_def Let_def
  by (auto split: sum.splits prod.splits if_splits option.splits pyval.splits)

lemma pipeline_jobs_effect:
  "pipeline_jobs E suffix r js acc w = (res, w') \<Longrightarrow>
     \<exists>evs. w' = w\<lparr>trace := trace w @ evs\<rparr> \<and> list_all is_show evs"
proof (induction js arbitrary: r acc w)
  case Nil
  then show ?case by (intro exI[of _ "[]"]) simp
next
  case (Cons j js)
  obtain jn job where j: "j = (jn, job)" by (cases j)
  show ?case
  proof (cases "truthy (the_default PyNone (component job))")
    case False
    with Cons.prems j have "pipeline_jobs E suffix r js (AList.update jn job acc) w = (res, w')"
      by simp
    from Cons.IH[OF this] show ?thesis .
  next
    case True
    obtain r1 w1 where pj: "pipeline_job E suffix r job w = (r1, w1)"
      by (cases "pipeline_job E suffix r job w")
    from pipeline_job_effect[OF pj] obtain evs1 where
      1: "w1 = w\<lparr>trace := trace w @ evs1\<rparr>" "list_all is_show evs1" by blast
    show ?thesis
    proof (cases "\<exists>job' r'. r1 = Inr (Some (job', r'))")
      case False
      with Cons.prems j True pj have "w' = w1"
        by (auto split: sum.splits option.splits)
      with 1 show ?thesis by blast
    next
      case True
      then obtain job' r' where r1: "r1 = Inr (Some (job', r'))" by blast
      with Cons.prems j \<open>truthy (the_default PyNone (component job))\<close> pj
      have "pipeline_jobs E suffix r' js (AList.update jn job' acc) w1 = (res, w')" by simp
      from Cons.IH[OF this] obtain evs2 where
        2: "w' = w1\<lparr>trace := trace w1 @ evs2\<rparr>" "list_all is_show evs2" by blast
      from 1 2 show ?thesis by (intro exI[of _ "evs1 @ evs2"]) simp
    qed
  qed
qed

lemma pipeline_jobs_append:
  "pipeline_jobs E suffix r (pre @ rest) acc w =
     (case pipeline_jobs E suffix r pre acc w of
        (Inr (Some acc'), w') \<Rightarrow> pipeline_jobs E suffix (registry_after r pre) rest acc' w'
      | other \<Rightarrow> other)"
proof (induction pre arbitrary: r acc w)
  case Nil
  then show ?case by simp
next
  case (Cons j pre)
  obtain jn job where j: "j = (jn, job)" by (cases j)
  show ?case
  proof (cases "truthy (the_default PyNone (component job))")
    case False
    then have ra: "registry_after r ((jn, job) # pre) = registry_after r pre" by simp
    show ?thesis unfolding j append_Cons ra using False Cons.IH by simp
  next
    case True
    obtain r1 w1 where pj: "pipeline_job E suffix r job w = (r1, w1)"
      by (cases "pipeline_job E suffix r job w")
    show ?thesis
    proof (cases "\<exists>job' r'. r1 = Inr (Some (job', r'))")
      case False
      with True pj show ?thesis unfolding j by (auto split: sum.splits option.splits)
    next
      case ex: True
      then obtain job' r' where r1: "r1 = Inr (Some (job', r'))" by blast
      from pipeline_job_registry[OF pj[unfolded r1], of jn] True
      have r': "r' = registry_after r [(jn, job)]" by simp
      have ra: "registry_after r ((jn, job) # pre) = registry_after (registry_after r [(jn, job)]) pre"
        by simp
      from r1 r' have r1': "r1 = Inr (Some (job', registry_after r [(jn, job)]))" by simp
      show ?thesis
        unfolding j append_Cons ra
        using True pj r1' Cons.IH[of "registry_after r [(jn, job)]" "AList.update jn job' acc" w1]
        by (simp del: registry_after.simps)
    qed
  qed
qed

lemma pipeline_job_unresolved:
  assumes "the_default PyNone (component job) = PyStr uri"
    and "get_parsed_details_from_asset_uri (type_value COMPONENT) uri = Inr (Some name, Some v, label, registry)"
    and "\<And>h. returncode (cli E h (show_command (type_value COMPONENT) name v (py_or registry r))) \<noteq> 0"
    and "\<And>h. returncode (cli E h (show_command (type_value COMPONENT) name (suffixed_version v suffix) (py_or registry r))) \<noteq> 0"
  shows "\<exists>w'. pipeline_job E suffix r job w = (Inr None, w')"
proof -
  have "\<exists>w'. first_details E (type_value COMPONENT) (Some name) (map Some [v, suffixed_version v suffix]) (py_or registry r) w = (Inr None, w')"
    by (rule first_details_missing) (use assms(3,4) in auto)
  then obtain w' where "first_details E (type_value COMPONENT) (Some name) [Some v, Some (suffixed_version v suffix)] (py_or registry r) w = (Inr None, w')"
    by auto
  then show ?thesis
    using assms(1,2)
    by (cases "str_truthy suffix") (simp_all add: pipeline_job_def suffixed_version_def)
qed

lemma parse_empty: "get_parsed_details_from_asset_uri t [] = Inl (Exception '' doesn't match workspace or registry pattern.'')"
  by (simp add: get_parsed_details_from_asset_uri_def re_match_def REGISTRY_ASSET_PATTERN_def
        WORKSPACE_ASSET_PATTERN_def)

lemma pipeline_jobs_unresolved:
  assumes pre: "\<And>e. fst (pipeline_jobs E suffix reg pre [] w) \<noteq> Inl e"
    and job: "component job = Some (PyStr uri)"
      "get_parsed_details_from_asset_uri (type_value COMPONENT) uri = Inr (Some name, Some v, label, registry)"
    and miss: "\<And>h. returncode (cli E h (show_command (type_value COMPONENT) name v
                   (py_or registry (registry_after reg pre)))) \<noteq> 0"
      "\<And>h. returncode (cli E h (show_command (type_value COMPONENT) name (suffixed_version v suffix)
                   (py_or registry (registry_after reg pre)))) \<noteq> 0"
  shows "\<exists>evs. pipeline_jobs E suffix reg (pre @ (job_name, job) # post) [] w
                 = (Inr None, w\<lparr>trace := trace w @ evs\<rparr>) \<and> list_all is_show evs"
proof -
  let ?all = "pipeline_jobs E suffix reg (pre @ (job_name, job) # post) [] w"
  obtain res w' where all: "?all = (res, w')" by (cases ?all)
  from pipeline_jobs_effect[OF all] obtain evs where
    evs: "w' = w\<lparr>trace := trace w @ evs\<rparr>" "list_all is_show evs" by blast
  have "res = Inr None"
  proof -
    obtain r0 w0 where p: "pipeline_jobs E suffix reg pre [] w = (r0, w0)"
      by (cases "pipeline_jobs E suffix reg pre [] w")
    from pre p have not_raise: "\<And>e. r0 \<noteq> Inl e" by simp
    show ?thesis
    proof (cases r0)
      case (Inl e)
      with not_raise[of e] show ?thesis by blast
    next
      case (Inr o0)
      show ?thesis
      proof (cases o0)
        case None
        with Inr p all show ?thesis by (simp add: pipeline_jobs_append)
      next
        case (Some acc')
        from job have tr: "truthy (the_default PyNone (component job))"
          by (cases uri) (simp_all add: parse_empty del: type_value.simps)
        from job(1) have c: "the_default PyNone (component job) = PyStr uri" by simp
        from pipeline_job_unresolved[OF c job(2) miss, of w0] obtain w1 where
          "pipeline_job E suffix (registry_after reg pre) job w0 = (Inr None, w1)" by blast
        with tr have "pipeline_jobs E suffix (registry_after reg pre) ((job_name, job) # post) acc' w0
            = (Inr None, w1)" by simp
        with Some Inr p all show ?thesis by (simp add: pipeline_jobs_append)
      qed
    qed
  qed
  with all evs show ?thesis by blast
qed

text \<open>
  What the pipeline loop does when it reaches a job it cannot resolve.  The pipeline is
  selected by the create list and not yet in the registry.  Its jobs are \<open>pre\<close>, then the job
  in question, then \<open>post\<close>; the jobs of \<open>pre\<close> raise no exception; the job's reference has a
  version, and the registry that is asked for it knows neither the bare nor the suffixed
  version, whatever was run before.  Then the attempt ends without an exception, no file has
  changed, the asset is the new last entry of the failure list, and all that was run are
  \<open>show\<close> queries.
\<close>

lemma pipeline_unresolved_job_fails:
  assumes sel: "in_create_list create_list asset"
    and kind: "a_type asset = COMPONENT" "component_type asset = Some PIPELINE"
    and new: "returncode (cli E (trace w) (show_command (type_value COMPONENT) (a_name asset)
                 (a_version asset) (arg_registry_name A))) \<noteq> 0"
    and spec: "files w (spec_with_path asset) = Some (Doc pipeline_dict)"
      "jobs pipeline_dict = Some (pre @ (job_name, job) # post)"
    and pre: "\<And>e w'. fst (pipeline_jobs E (arg_version_suffix A) (arg_registry_name A) pre [] w') \<noteq> Inl e"
    and job: "component job = Some (PyStr uri)"
      "get_parsed_details_from_asset_uri (type_value COMPONENT) uri
         = Inr (Some name, Some v, label, registry)"
    and miss: "\<And>h. returncode (cli E h (show_command (type_value COMPONENT) name v
                   (py_or registry (registry_after (arg_registry_name A) pre)))) \<noteq> 0"
      "\<And>h. returncode (cli E h (show_command (type_value COMPONENT) name
                   (suffixed_version v (arg_version_suffix A))
                   (py_or registry (registry_after (arg_registry_name A) pre)))) \<noteq> 0"
  shows "\<exists>w' evs. publish_asset E A create_list asset w = (Inr (), w')
           \<and> files w' = files w
           \<and> failure_list w' = failure_list w @ [asset]
           \<and> trace w' = trace w @ evs \<and> list_all is_show evs"
proof -
  let ?reg = "arg_registry_name A"
  let ?suffix = "arg_version_suffix A"
  let ?show = "show_command (type_value COMPONENT) (a_name asset) (a_version asset) ?reg"
  let ?w1 = "w\<lparr>asset_ids := (asset_ids w)(a_name asset \<mapsto>
                      ASSET_ID_TEMPLATE ?reg
                        (pluralize_asset_type (type_value (a_type asset)))
                        (a_name asset) (suffixed_version (a_version asset) ?suffix))\<rparr>"
  let ?w2 = "?w1\<lparr>trace := trace ?w1 @ [Ran ?show]\<rparr>"
  from new have "returncode (cli E (trace ?w1) ?show) \<noteq> 0" by simp
  from get_asset_details_missing[OF this]
  have gad: "get_asset_details E (type_value (a_type asset)) (Some (a_name asset))
               (Some (a_version asset)) ?reg ?w1 = (Inr None, ?w2)"
    using kind(1) by simp
  from pipeline_jobs_unresolved[OF pre job miss, where w = ?w2 and job_name = job_name
      and post = post] obtain evs where
    pj: "pipeline_jobs E ?suffix ?reg (pre @ (job_name, job) # post) [] ?w2
           = (Inr None, ?w2\<lparr>trace := trace ?w2 @ evs\<rparr>)" and evs: "list_all is_show evs"
    by blast
  let ?w3 = "?w2\<lparr>trace := trace ?w2 @ evs\<rparr>"
  have val: "validate_and_prepare_pipeline_component E (spec_with_path asset) ?suffix ?reg ?w2
               = (Inr False, ?w3)"
    using spec pj by (simp add: validate_and_prepare_pipeline_component_def)
  have "publish_asset E A create_list asset w
          = (Inr (), ?w3\<lparr>failure_list := failure_list ?w3 @ [asset]\<rparr>)"
    using sel kind gad val
    by (simp add: publish_asset_def Let_def fail_asset_def del: type_value.simps)
  moreover have "list_all is_show (Ran ?show # evs)" using evs by simp
  ultimately show ?thesis
    by (intro exI[of _ "?w3\<lparr>failure_list := failure_list ?w3 @ [asset]\<rparr>"] exI[of _ "Ran ?show # evs"])
       simp
qed





lemmas ex_defs = registry_with_def show_command_def disk_def target_args_def

section \<open>Facts about the post-processing\<close>

lemma normalized_box_Inr:
  "normalized_box b image_size = Inr nb \<Longrightarrow> nb = fraction_box b image_size"
  by (cases b) (auto simp: normalized_box_def fraction_box_def py_div_def split: if_splits)

lemma normalize_points_Inr:
  "normalize_points points image_size = Inr cs \<Longrightarrow> cs = fraction_points points image_size"
proof (induction points arbitrary: cs)
  case Nil
  then show ?case by (simp add: fraction_points_def)
next
  case (Cons p points)
  obtain x y where p: "p = (x, y)" by (cases p)
  from Cons.prems obtain rest where
    r: "normalize_points points image_size = Inr rest"
    and cs: "cs = real_of_int x / real_of_int (fst image_size) # real_of_int y / real_of_int (snd image_size) # rest"
    unfolding p by (auto simp: py_div_def split: if_splits sum.splits)
  from Cons.IH[OF r] cs show ?case by (simp add: fraction_points_def p)
qed

lemma normalize_polygon_Inr:
  "normalize_polygon polygon image_size = Inr np \<Longrightarrow>
     np = map (\<lambda>points. fraction_points points image_size) polygon"
proof (induction polygon arbitrary: np)
  case Nil
  then show ?case by simp
next
  case (Cons points polygon)
  from Cons.prems obtain a rest where
    "normalize_points points image_size = Inr a" "normalize_polygon polygon image_size = Inr rest"
    "np = a # rest"
    by (auto split: sum.splits)
  with Cons.IH[of rest] normalize_points_Inr[of points image_size a] show ?case by simp
qed

lemma od_boxes_Inr:
  "od_boxes CLASSES image_size rows = Inr preds \<Longrightarrow> p \<in> set preds \<Longrightarrow>
     \<exists>b\<in>set (map fst rows). pred_box p = fraction_box b image_size"
proof (induction rows arbitrary: preds)
  case Nil
  then show ?case by simp
next
  case (Cons row rows)
  obtain b l where row: "row = (b, l)" by (cases row)
  from Cons.prems(1) obtain nb nm rest where
    nb: "normalized_box b image_size = Inr nb"
    and rest: "od_boxes CLASSES image_size rows = Inr rest"
    and preds: "preds = \<lparr>pred_box = nb, pred_label = nm, pred_score = snd (snd (snd (snd b)))\<rparr> # rest"
    unfolding row by (auto split: sum.splits)
  show ?case
  proof (cases "p \<in> set rest")
    case True
    from Cons.IH[OF rest True] show ?thesis by auto
  next
    case False
    with Cons.prems(2) preds have "pred_box p = nb" by auto
    with normalized_box_Inr[OF nb] row show ?thesis by simp
  qed
qed

lemma rows_with_labels_fst:
  "rows_with_labels result = Inr rows \<Longrightarrow> map fst rows = concat result"
proof -
  have "map fst (concat (map (\<lambda>(i, rs). map (\<lambda>r. (r, i)) rs) (enumerate n result))) = concat result"
    for n :: nat
  proof (induction result arbitrary: n)
    case Nil
    then show ?case by simp
  next
    case (Cons rs result)
    then show ?case by (simp add: comp_def)
  qed
  then show "rows_with_labels result = Inr rows \<Longrightarrow> map fst rows = concat result"
    by (auto simp: rows_with_labels_def split: if_splits)
qed

lemma od_results_Inr:
  "process_object_detection_results CLASSES results image_sizes = Inr predictions \<Longrightarrow>
   i < length predictions \<Longrightarrow> p \<in> set (predictions ! i) \<Longrightarrow>
     \<exists>b\<in>set (concat (results ! i)). pred_box p = fraction_box b (image_sizes ! i)"
proof (induction CLASSES results image_sizes arbitrary: predictions i
       rule: process_object_detection_results.induct)
  case (1 CLASSES result results image_size image_sizes)
  from "1.prems"(1) obtain rows cur rest where
    rows: "rows_with_labels result = Inr rows"
    and cur: "od_boxes CLASSES image_size rows = Inr cur"
    and rest: "process_object_detection_results CLASSES results image_sizes = Inr rest"
    and predictions: "predictions = cur # rest"
    by (auto split: sum.splits)
  show ?case
  proof (cases i)
    case 0
    with "1.prems"(3) predictions have "p \<in> set cur" by simp
    from od_boxes_Inr[OF cur this] rows_with_labels_fst[OF rows] 0 show ?thesis by simp
  next
    case (Suc j)
    with "1.prems"(2,3) predictions have "j < length rest" "p \<in> set (rest ! j)" by simp_all
    from "1.IH"[OF rows cur rest this] Suc show ?thesis by simp
  qed
qed simp_all

lemma is_boxes_Inr:
  "is_boxes btp CLASSES image_size dets = Inr preds \<Longrightarrow> q \<in> set preds \<Longrightarrow>
     \<exists>(b, m)\<in>set (map (\<lambda>((b, l), m). (b, m)) dets).
        pred_box q = fraction_box b image_size
        \<and> pred_polygon q = map (\<lambda>points. fraction_points points image_size)
                              (remove_invalid_segments (btp m))"
proof (induction dets arbitrary: preds)
  case Nil
  then show ?case by simp
next
  case (Cons det dets)
  obtain b l m where det: "det = ((b, l), m)" by (cases det) auto
  show ?case
  proof (cases "length (remove_invalid_segments (btp m)) > 0")
    case False
    with Cons.prems(1) have "is_boxes btp CLASSES image_size dets = Inr preds"
      unfolding det by (simp add: Let_def)
    from Cons.IH[OF this Cons.prems(2)] show ?thesis by auto
  next
    case True
    with Cons.prems(1) obtain nb nm np rest where
      nb: "normalized_box b image_size = Inr nb"
      and np: "normalize_polygon (remove_invalid_segments (btp m)) image_size = Inr np"
      and rest: "is_boxes btp CLASSES image_size dets = Inr rest"
      and preds: "preds = \<lparr>pred_box = nb, pred_label = nm, pred_score = snd (snd (snd (snd b))),
                      pred_polygon = np\<rparr> # rest"
      unfolding det by (auto simp: Let_def split: sum.splits)
    show ?thesis
    proof (cases "q \<in> set rest")
      case True
      from Cons.IH[OF rest True] show ?thesis by auto
    next
      case False
      with Cons.prems(2) preds have "pred_box q = nb" "pred_polygon q = np" by auto
      with normalized_box_Inr[OF nb] normalize_polygon_Inr[OF np] det show ?thesis by simp
    qed
  qed
qed

lemma zip_drop_label:
  "map (\<lambda>((b, l), m). (b, m)) (zip rows ms) = zip (map fst rows) ms"
  by (induction rows ms rule: list_induct2') auto

lemma is_results_Inr:
  "process_instance_segmentation_results btp CLASSES batch image_sizes = Inr predictions \<Longrightarrow>
   i < length predictions \<Longrightarrow> q \<in> set (predictions ! i) \<Longrightarrow>
     \<exists>(b, m)\<in>set (zip (concat (fst (batch ! i))) (concat (snd (batch ! i)))).
        pred_box q = fraction_box b (image_sizes ! i)
        \<and> pred_polygon q = map (\<lambda>points. fraction_points points (image_sizes ! i))
                              (remove_invalid_segments (btp m))"
proof (induction btp CLASSES batch image_sizes arbitrary: predictions i
       rule: process_instance_segmentation_results.induct)
  case (1 btp CLASSES predicted_bbox predicted_mask batch_predictions image_size image_sizes)
  from "1.prems"(1) obtain rows cur rest where
    rows: "rows_with_labels predicted_bbox = Inr rows"
    and ne: "concat predicted_mask \<noteq> []"
    and cur: "is_boxes btp CLASSES image_size (zip rows (concat predicted_mask)) = Inr cur"
    and rest: "process_instance_segmentation_results btp CLASSES batch_predictions image_sizes = Inr rest"
    and predictions: "predictions = cur # rest"
    by (auto simp: Let_def split: sum.splits if_splits)
  show ?case
  proof (cases i)
    case 0
    with "1.prems"(3) predictions have "q \<in> set cur" by simp
    note z = zip_drop_label[of rows "concat predicted_mask"]
    from is_boxes_Inr[OF cur \<open>q \<in> set cur\<close>] rows_with_labels_fst[OF rows] 0 show ?thesis
      unfolding z by simp
  next
    case (Suc j)
    with "1.prems"(2,3) predictions have "j < length rest" "q \<in> set (rest ! j)" by simp_all
    from "1.IH"[OF rows refl ne cur rest this] Suc show ?thesis by simp
  qed
qed simp_all

lemma in_unit_div: "0 < n \<Longrightarrow> in_unit (x / real_of_int n) \<longleftrightarrow> 0 \<le> x \<and> x \<le> real_of_int n"
  by (simp add: in_unit_def zero_le_divide_iff divide_le_eq)

lemma unit_box_fraction:
  "1 \<le> fst image_size \<Longrightarrow> 1 \<le> snd image_size \<Longrightarrow>
     unit_box (fraction_box b image_size) \<longleftrightarrow> box_in_image b image_size"
  by (cases b) (auto simp: unit_box_def fraction_box_def box_in_image_def in_unit_div)

lemma unit_points_fraction:
  "1 \<le> fst image_size \<Longrightarrow> 1 \<le> snd image_size \<Longrightarrow>
     list_all in_unit (fraction_points points image_size)
       \<longleftrightarrow> list_all (point_in_image image_size) points"
  by (induction points) (auto simp: fraction_points_def point_in_image_def in_unit_div)

section \<open>The claims\<close>

subsection \<open>Unsupported labels\<close>

text \<open>
  Claim C1: an environment reference whose label is present and is not \<open>latest\<close> makes
  resolution fail, and the failure ends the publish attempt of that asset only: the asset
  is recorded as failed, its spec file is not rewritten, and no creation command is issued.

  The code does not do this.  \<open>get_environment_asset_id\<close> returns \<open>False\<close> on the unsupported
  label, while its caller takes everything that \<open>is not None\<close> for a resolved ID.  At the
  component \<open>train\<close>, whose environment is \<open>azureml:sklearn@stable\<close>, the spec file is
  rewritten with the environment \<open>False\<close>, the creation command is run, and the failure list
  stays empty.
\<close>

theorem unsupported_label_is_published:
  "(case publish_asset (registry_with []) (target_args None) [(''component'', [''*''])] train
          (disk [(''train/spec.yaml'', Doc train_spec)]) of
      (r, w) \<Rightarrow>
        r = Inr ()
        \<and> failure_list w = []
        \<and> files w ''train/spec.yaml'' = Some (Doc (train_spec\<lparr>environment := Some (PyBool False)\<rparr>))
        \<and> trace w =
            [Ran (show_command ''component'' ''train'' ''1'' ''target''),
             Dumped ''train/spec.yaml'' (train_spec\<lparr>environment := Some (PyBool False)\<rparr>),
             Ran [''/usr/bin/az'', ''ml'', ''component'', ''create'', ''--file'', ''train/spec.yaml'',
                  ''--registry-name'', ''target'', ''--version'', ''1'']])"
  by code_simp

subsection \<open>The asset URI resolver\<close>

text \<open>
  Claim C2, as stated: the registry shape and the workspace shape are mutually exclusive,
  so that exactly one of them matches a valid URI.  This is false: a registry URI starts
  with \<open>azureml:\<close> and goes on with text after the colon, so the workspace pattern matches
  it as well.
\<close>

theorem shapes_overlap:
  "matches_registry_shape (type_value COMPONENT) ''azureml://registries/r/components/n/versions/1''
   \<and> matches_workspace_shape ''azureml://registries/r/components/n/versions/1''"
  by code_simp

text \<open>
  Claim C2, amended: the shapes overlap and the resolver settles the overlap by order.
  When the registry shape matches, the result comes from that match: a name, a registry, and
  either a version or a label.  The workspace shape is used only when the registry shape
  does not match, and gives a name and either a version or a label, without a registry.  A
  URI that matches neither shape makes the resolver raise its parse error.
\<close>

theorem shapes_by_precedence:
  "(matches_registry_shape asset_type asset_uri \<longrightarrow>
      (\<exists>name v registry.
         get_parsed_details_from_asset_uri asset_type asset_uri = Inr (Some name, Some v, None, Some registry)
       \<or> get_parsed_details_from_asset_uri asset_type asset_uri = Inr (Some name, None, Some v, Some registry)))
   \<and> (\<not> matches_registry_shape asset_type asset_uri \<and> matches_workspace_shape asset_uri \<longrightarrow>
      (\<exists>name v.
         get_parsed_details_from_asset_uri asset_type asset_uri = Inr (Some name, Some v, None, None)
       \<or> get_parsed_details_from_asset_uri asset_type asset_uri = Inr (Some name, None, Some v, None)))
   \<and> (\<not> matches_registry_shape asset_type asset_uri \<and> \<not> matches_workspace_shape asset_uri \<longrightarrow>
        get_parsed_details_from_asset_uri asset_type asset_uri
          = Inl (Exception (asset_uri @ '' doesn't match workspace or registry pattern.'')))"
proof (intro conjI impI)
  assume "matches_registry_shape asset_type asset_uri"
  then obtain g where g: "re_match (REGISTRY_ASSET_PATTERN (pluralize_asset_type asset_type)) asset_uri = Some g"
    by (auto simp: matches_registry_shape_def)
  from registry_groups[OF g] g
  show "\<exists>name v registry.
         get_parsed_details_from_asset_uri asset_type asset_uri = Inr (Some name, Some v, None, Some registry)
       \<or> get_parsed_details_from_asset_uri asset_type asset_uri = Inr (Some name, None, Some v, Some registry)"
    by (auto simp: get_parsed_details_from_asset_uri_def)
next
  assume "\<not> matches_registry_shape asset_type asset_uri \<and> matches_workspace_shape asset_uri"
  then obtain g where n: "re_match (REGISTRY_ASSET_PATTERN (pluralize_asset_type asset_type)) asset_uri = None"
    and g: "re_match WORKSPACE_ASSET_PATTERN asset_uri = Some g"
    by (auto simp: matches_registry_shape_def matches_workspace_shape_def)
  from workspace_groups[OF g] g n
  show "\<exists>name v.
         get_parsed_details_from_asset_uri asset_type asset_uri = Inr (Some name, Some v, None, None)
       \<or> get_parsed_details_from_asset_uri asset_type asset_uri = Inr (Some name, None, Some v, None)"
    by (auto simp: get_parsed_details_from_asset_uri_def)
next
  assume "\<not> matches_registry_shape asset_type asset_uri \<and> \<not> matches_workspace_shape asset_uri"
  then show "get_parsed_details_from_asset_uri asset_type asset_uri
          = Inl (Exception (asset_uri @ '' doesn't match workspace or registry pattern.''))"
    by (simp add: matches_registry_shape_def matches_workspace_shape_def get_parsed_details_from_asset_uri_def)
qed

theorem shapes_by_precedence_witness:
  "matches_registry_shape (type_value COMPONENT) ''azureml://registries/r/components/n/versions/1''
   \<and> (\<exists>name v registry.
         get_parsed_details_from_asset_uri (type_value COMPONENT)
             ''azureml://registries/r/components/n/versions/1''
           = Inr (Some name, Some v, None, Some registry)
       \<or> get_parsed_details_from_asset_uri (type_value COMPONENT)
             ''azureml://registries/r/components/n/versions/1''
           = Inr (Some name, None, Some v, Some registry))
   \<and> \<not> matches_registry_shape (type_value COMPONENT) ''azureml:n@latest''
   \<and> matches_workspace_shape ''azureml:n@latest''
   \<and> (\<exists>name v.
         get_parsed_details_from_asset_uri (type_value COMPONENT) ''azureml:n@latest''
           = Inr (Some name, Some v, None, None)
       \<or> get_parsed_details_from_asset_uri (type_value COMPONENT) ''azureml:n@latest''
           = Inr (Some name, None, Some v, None))
   \<and> \<not> matches_registry_shape (type_value COMPONENT) ''./n.yml''
   \<and> \<not> matches_workspace_shape ''./n.yml''
   \<and> get_parsed_details_from_asset_uri (type_value COMPONENT) ''./n.yml''
       = Inl (Exception ''./n.yml doesn't match workspace or registry pattern.'')"
proof -
  have a: "matches_registry_shape (type_value COMPONENT)
             ''azureml://registries/r/components/n/versions/1''"
    by code_simp
  have b: "\<not> matches_registry_shape (type_value COMPONENT) ''azureml:n@latest''
           \<and> matches_workspace_shape ''azureml:n@latest''"
    by code_simp
  have c: "\<not> matches_registry_shape (type_value COMPONENT) ''./n.yml''
           \<and> \<not> matches_workspace_shape ''./n.yml''"
    by code_simp
  note a' = shapes_by_precedence[of "type_value COMPONENT"
      "''azureml://registries/r/components/n/versions/1''", THEN conjunct1, rule_format, OF a]
  note b' = shapes_by_precedence[of "type_value COMPONENT" "''azureml:n@latest''",
      THEN conjunct2, THEN conjunct1, rule_format, OF b]
  note c' = shapes_by_precedence[of "type_value COMPONENT" "''./n.yml''",
      THEN conjunct2, THEN conjunct2, rule_format, OF c]
  from c' have c'': "get_parsed_details_from_asset_uri (type_value COMPONENT) ''./n.yml''
       = Inl (Exception ''./n.yml doesn't match workspace or registry pattern.'')"
    by simp
  show ?thesis
    using a a' b b' c c'' by (intro conjI) (rule TrueI | elim conjE | assumption)+
qed

subsection \<open>The dependency version reconciler\<close>

text \<open>
  Claim C3: the candidates are the bare version and then, with a suffix, the suffixed
  version; each is looked up in the registry the URI names, otherwise in the target
  registry; the first that resolves wins.

  In the pipeline loop the lookup of a short reference does not go to the target registry
  once an earlier job has named a registry: the loop assigns to its own parameter
  \<open>registry_name\<close>.  In the pipeline spec \<open>flow_spec\<close> the second job's component \<open>train:2\<close> exists in
  the target registry, yet both lookups go to \<open>azureml\<close>, find nothing, and the function
  returns \<open>False\<close>.
\<close>

theorem registry_of_earlier_job_is_queried:
  "(case validate_and_prepare_pipeline_component two_registries ''flow/spec.yaml'' None ''target''
          (disk [(''flow/spec.yaml'', Doc flow_spec)]) of
      (r, w) \<Rightarrow>
        r = Inr False
        \<and> trace w =
            [Ran (show_command ''component'' ''prep'' ''1'' ''azureml''),
             Ran (show_command ''component'' ''train'' ''2'' ''azureml''),
             Ran (show_command ''component'' ''train'' ''2'' ''azureml'')])
   \<and> returncode (cli two_registries [] (show_command ''component'' ''train'' ''2'' ''target'')) = 0"
  by code_simp




subsection \<open>Round trip of the asset ID\<close>

text \<open>
  Claim C5, as stated: for every registry name, asset type, asset name and version, the ID
  built by the template resolves back to the same name, version and registry.  This is false
  for a name that contains the path segment of the type: the greedy first group takes it
  into the registry.
\<close>

theorem id_round_trip_counterexample:
  "get_parsed_details_from_asset_uri (type_value COMPONENT)
     (ASSET_ID_TEMPLATE ''r'' (pluralize_asset_type (type_value COMPONENT)) ''a/components/b'' ''1'')
   = Inr (Some ''b'', Some ''1'', None, Some ''r/components/a'')"
  by code_simp

text \<open>
  Claim C5, amended: for every asset type, and every registry name, asset name and version
  that are not empty and contain no newline, where moreover the asset name and the version
  contain no \<open>/\<close>, the ID built by the template resolves, for the same asset type, to the
  original name, version and registry, with no label.
\<close>

theorem id_round_trip:
  assumes "registry \<noteq> []" "newline \<notin> set registry"
    and "name \<noteq> []" "newline \<notin> set name" "CHR ''/'' \<notin> set name"
    and "version \<noteq> []" "newline \<notin> set version" "CHR ''/'' \<notin> set version"
  shows "get_parsed_details_from_asset_uri (type_value t)
           (ASSET_ID_TEMPLATE registry (pluralize_asset_type (type_value t)) name version)
         = Inr (Some name, Some version, None, Some registry)"
  using registry_roundtrip[OF assms count_plural[of t]]
  by (simp add: get_parsed_details_from_asset_uri_def)

theorem id_round_trip_witness:
  "''azureml'' \<noteq> [] \<and> newline \<notin> set ''azureml''
   \<and> ''train'' \<noteq> [] \<and> newline \<notin> set ''train'' \<and> CHR ''/'' \<notin> set ''train''
   \<and> ''1.0.2'' \<noteq> [] \<and> newline \<notin> set ''1.0.2'' \<and> CHR ''/'' \<notin> set ''1.0.2''
   \<and> get_parsed_details_from_asset_uri (type_value MODEL)
         (ASSET_ID_TEMPLATE ''azureml'' (pluralize_asset_type (type_value MODEL)) ''train'' ''1.0.2'')
       = Inr (Some ''train'', Some ''1.0.2'', None, Some ''azureml'')"
  using id_round_trip[of "''azureml''" "''train''" "''1.0.2''" MODEL]
  by (simp add: newline_def)

subsection \<open>The publishing loop\<close>

text \<open>
  Claim C6: when a pipeline component has a job whose component does not resolve at any
  tried version, the publish of the pipeline fails: the asset is appended to the failure
  list and the spec file is left as it was, with no partial write.

  The code does this only when the loop gets as far as that job (see
  \<open>pipeline_unresolved_job_fails\<close> above).  A job that names its component by a label,
  as in \<open>azureml:prep@latest\<close>, has no version: with a suffix, \<open>version + "-" +
  version_suffix\<close> raises \<open>TypeError\<close>, and without one the \<open>None\<close> in the command line makes
  \<open>subprocess.run\<close> raise it.  Nothing catches the exception, in the function or in the
  script, so the script ends there.  In the pipeline \<open>labelled\<close> the second job's component
  \<open>train:2\<close> is in no registry, at the bare or the suffixed version; the first job has the
  label.  The attempt raises, the file is unchanged, and the asset is not on the failure
  list.
\<close>

theorem label_in_pipeline_aborts_the_script:
  "(case publish_asset (registry_with []) (target_args None) [(''component'', [''*''])] labelled
          (disk [(''labelled/spec.yaml'', Doc labelled_spec)]) of
      (r, w) \<Rightarrow>
        r = Inl TypeError
        \<and> failure_list w = []
        \<and> files w ''labelled/spec.yaml'' = Some (Doc labelled_spec)
        \<and> trace w = [Ran (show_command ''component'' ''labelled'' ''3'' ''target'')])
   \<and> (case publish_asset (registry_with []) (target_args (Some ''rc'')) [(''component'', [''*''])]
          labelled (disk [(''labelled/spec.yaml'', Doc labelled_spec)]) of
      (r, w) \<Rightarrow>
        r = Inl TypeError
        \<and> failure_list w = []
        \<and> files w ''labelled/spec.yaml'' = Some (Doc labelled_spec)
        \<and> trace w = [Ran (show_command ''component'' ''labelled'' ''3'' ''target'')])
   \<and> returncode (cli (registry_with []) [] (show_command ''component'' ''train'' ''2'' ''target'')) = 1
   \<and> returncode (cli (registry_with []) [] (show_command ''component'' ''train'' ''2-rc'' ''target'')) = 1"
  by code_simp

text \<open>
  Claim C7, as stated: for every selected asset that is already in the registry at its bare
  version, creation is skipped and the metadata of the asset is refreshed.  The refresh
  does not happen for every asset: for the existing component \<open>train\<close> the query is all that
  is run.
\<close>

theorem existing_component_gets_no_metadata_update:
  "(case publish_asset train_exists (target_args None) [(''component'', [''*''])] train
          (disk [(''train/spec.yaml'', Doc train_spec)]) of
      (r, w) \<Rightarrow>
        r = Inr ()
        \<and> trace w = [Ran (show_command ''component'' ''train'' ''1'' ''target'')])"
  by code_simp

text \<open>
  Claim C7, amended: for every selected asset that is already in the registry at its bare
  version, creation is skipped: the query for the asset is run, no file changes, the
  failure list stays as it is, and neither a creation command nor a dependency lookup
  follows.  The metadata (tags and description) is refreshed only when the asset is a model
  (and its extra configuration can be read); for the other types nothing is updated.
\<close>

theorem existing_asset_is_skipped:
  assumes sel: "in_create_list create_list asset"
    and ex: "returncode (cli E (trace w) (show_command (type_value (a_type asset)) (a_name asset)
                 (a_version asset) (arg_registry_name A))) = 0"
      "details_truthy (Some (stdout (cli E (trace w) (show_command (type_value (a_type asset))
                 (a_name asset) (a_version asset) (arg_registry_name A)))))"
  shows "\<exists>w'. publish_asset E A create_list asset w = (Inr (), w')
           \<and> files w' = files w
           \<and> failure_list w' = failure_list w
           \<and> trace w' = trace w
                @ [Ran (show_command (type_value (a_type asset)) (a_name asset) (a_version asset)
                      (arg_registry_name A))]
                @ (if a_type asset = MODEL then
                     (case extra_config asset of
                        None \<Rightarrow> []
                      | Some model_config \<Rightarrow>
                          [UpdatedModelMetadata (a_name asset) (a_version asset)
                             (tags_to_update w (spec_with_path asset)) (description model_config)])
                   else [])"
proof -
  let ?reg = "arg_registry_name A"
  let ?show = "show_command (type_value (a_type asset)) (a_name asset) (a_version asset) ?reg"
  let ?w1 = "w\<lparr>asset_ids := (asset_ids w)(a_name asset \<mapsto>
                      ASSET_ID_TEMPLATE ?reg
                        (pluralize_asset_type (type_value (a_type asset)))
                        (a_name asset) (suffixed_version (a_version asset) (arg_version_suffix A)))\<rparr>"
  let ?w2 = "?w1\<lparr>trace := trace ?w1 @ [Ran ?show]\<rparr>"
  let ?j = "stdout (cli E (trace w) ?show)"
  from ex(2) have nj: "?j \<noteq> NotJson" by auto
  have gad: "get_asset_details E (type_value (a_type asset)) (Some (a_name asset))
               (Some (a_version asset)) ?reg ?w1 = (Inr (Some ?j), ?w2)"
    using ex(1) nj by (cases ?j) (simp_all add: get_asset_details_Some Let_def del: type_value.simps)
  have tg: "tags_to_update ?w2 (spec_with_path asset) = tags_to_update w (spec_with_path asset)"
    by (simp add: tags_to_update_def)
  obtain r3 w3 where um: "update_asset_metadata asset ?w2 = (r3, w3)"
    by (cases "update_asset_metadata asset ?w2")
  have pa: "publish_asset E A create_list asset w = (Inr (), w3)"
    using sel gad ex(2) um by (simp add: publish_asset_def Let_def del: type_value.simps)
  have "files w3 = files w \<and> failure_list w3 = failure_list w
         \<and> trace w3 = trace w @ [Ran ?show]
                @ (if a_type asset = MODEL then
                     (case extra_config asset of
                        None \<Rightarrow> []
                      | Some model_config \<Rightarrow>
                          [UpdatedModelMetadata (a_name asset) (a_version asset)
                             (tags_to_update w (spec_with_path asset)) (description model_config)])
                   else [])"
    using um tg unfolding update_asset_metadata_def
    by (auto split: if_splits option.splits)
  with pa show ?thesis by blast
qed

theorem existing_asset_is_skipped_witness:
  "in_create_list [(''model'', [''bert''])] bert
   \<and> (\<exists>w'. publish_asset bert_exists (target_args (Some ''rc'')) [(''model'', [''bert''])] bert
              (disk [(''bert/spec.yaml'', Doc bert_spec)]) = (Inr (), w')
         \<and> files w' = files (disk [(''bert/spec.yaml'', Doc bert_spec)])
         \<and> failure_list w' = []
         \<and> trace w' =
             [Ran (show_command ''model'' ''bert'' ''4'' ''target''),
              UpdatedModelMetadata ''bert'' ''4''
                (Some [(''task'', ''fill-mask''), (''preview'', ''True'')]) ''A language model''])"
proof -
  let ?w = "disk [(''bert/spec.yaml'', Doc bert_spec)]"
  let ?A = "target_args (Some ''rc'')"
  have sel: "in_create_list [(''model'', [''bert''])] bert"
    by (simp add: in_create_list_def bert_def)
  have ex: "returncode (cli bert_exists (trace ?w) (show_command (type_value (a_type bert)) (a_name bert)
                 (a_version bert) (arg_registry_name ?A))) = 0"
      "details_truthy (Some (stdout (cli bert_exists (trace ?w) (show_command (type_value (a_type bert))
                 (a_name bert) (a_version bert) (arg_registry_name ?A)))))"
    by (simp_all add: bert_exists_def bert_def ex_defs)
  have tg: "tags_to_update ?w (spec_with_path bert) = Some [(''task'', ''fill-mask''), (''preview'', ''True'')]"
    by (simp add: tags_to_update_def disk_def bert_def bert_spec_def)
  from existing_asset_is_skipped[OF sel ex] obtain w' where
    "publish_asset bert_exists ?A [(''model'', [''bert''])] bert ?w = (Inr (), w')"
    "files w' = files ?w" "failure_list w' = failure_list ?w"
    "trace w' = trace ?w
                @ [Ran (show_command (type_value (a_type bert)) (a_name bert) (a_version bert)
                      (arg_registry_name ?A))]
                @ (if a_type bert = MODEL then
                     (case extra_config bert of
                        None \<Rightarrow> []
                      | Some model_config \<Rightarrow>
                          [UpdatedModelMetadata (a_name bert) (a_version bert)
                             (tags_to_update ?w (spec_with_path bert)) (description model_config)])
                   else [])"
    by blast
  then have "publish_asset bert_exists ?A [(''model'', [''bert''])] bert ?w = (Inr (), w')
         \<and> files w' = files ?w
         \<and> failure_list w' = []
         \<and> trace w' =
             [Ran (show_command ''model'' ''bert'' ''4'' ''target''),
              UpdatedModelMetadata ''bert'' ''4''
                (Some [(''task'', ''fill-mask''), (''preview'', ''True'')]) ''A language model'']"
    unfolding tg by (simp add: bert_def disk_def target_args_def)
  with sel show ?thesis by blast
qed



subsection \<open>Detections\<close>

text \<open>
  Claim C8, as stated: for every image of at least 1 by 1 pixel, every coordinate of a box
  or polygon in the output lies between 0 and 1.  This is false: the coordinates are
  divided by the image size and nothing clamps them, so a box that the detector puts
  beyond the image comes out beyond 1.
\<close>

theorem box_outside_unit_square:
  "process_object_detection_results [''cat''] [[[(2, 0, 3, 1, 9 / 10)]]] [(1, 1)]
     = Inr [[\<lparr>pred_box = \<lparr>topX = 2, topY = 0, bottomX = 3, bottomY = 1\<rparr>,
              pred_label = ''cat'', pred_score = 9 / 10\<rparr>]]
   \<and> \<not> unit_box \<lparr>topX = 2, topY = 0, bottomX = 3, bottomY = 1\<rparr>"
  by (simp add: rows_with_labels_def normalized_box_def py_div_def class_name_def unit_box_def
        in_unit_def)

text \<open>
  Claim C8, amended: every box in the output is the raw box of a detection with \<open>x\<close>
  divided by the width and \<open>y\<close> by the height of the image, and every polygon in the output
  is the kept segments of the mask of that detection with each point divided in the same
  way; raw pixels never appear.  For an image of at least 1 by 1 pixel such a coordinate
  lies between 0 and 1 exactly when the raw coordinate lies between 0 and the width
  (height).
\<close>

theorem coordinates_are_fractions:
  "(process_object_detection_results CLASSES results image_sizes = Inr predictions
      \<and> i < length predictions \<and> p \<in> set (predictions ! i)
    \<longrightarrow> (\<exists>b\<in>set (concat (results ! i)). pred_box p = fraction_box b (image_sizes ! i)))
   \<and> (process_instance_segmentation_results bitmap_to_polygon CLASSES batch_predictions image_sizes
        = Inr is_predictions
      \<and> i < length is_predictions \<and> q \<in> set (is_predictions ! i)
    \<longrightarrow> (\<exists>(b, m)\<in>set (zip (concat (fst (batch_predictions ! i)))
                            (concat (snd (batch_predictions ! i)))).
           pred_box q = fraction_box b (image_sizes ! i)
           \<and> pred_polygon q = map (\<lambda>points. fraction_points points (image_sizes ! i))
                                 (remove_invalid_segments (bitmap_to_polygon m))))
   \<and> (1 \<le> fst image_size \<and> 1 \<le> snd image_size
    \<longrightarrow> (unit_box (fraction_box b image_size) \<longleftrightarrow> box_in_image b image_size)
        \<and> (list_all in_unit (fraction_points points image_size)
             \<longleftrightarrow> list_all (point_in_image image_size) points))"
  using od_results_Inr[of CLASSES results image_sizes predictions i p]
    is_results_Inr[of bitmap_to_polygon CLASSES batch_predictions image_sizes is_predictions i q]
    unit_box_fraction[of image_size b] unit_points_fraction[of image_size points]
  by blast

theorem coordinates_are_fractions_witness:
  "process_object_detection_results [''cat'', ''dog''] [[[cat_box], []]] [size_4x4] = Inr [[cat_od]]
   \<and> (\<exists>b\<in>set (concat ([[[cat_box], []]] ! 0)). pred_box cat_od = fraction_box b ([size_4x4] ! 0))
   \<and> process_instance_segmentation_results (\<lambda>contour. [contour]) [''cat''] cat_batch [size_4x4]
      = Inr [[cat_is]]
   \<and> (\<exists>(b, m)\<in>set (zip (concat (fst (cat_batch ! 0))) (concat (snd (cat_batch ! 0)))).
         pred_box cat_is = fraction_box b ([size_4x4] ! 0)
         \<and> pred_polygon cat_is
             = map (\<lambda>points. fraction_points points ([size_4x4] ! 0)) (remove_invalid_segments [m]))
   \<and> 1 \<le> fst size_4x4 \<and> 1 \<le> snd size_4x4
   \<and> (unit_box (fraction_box cat_box size_4x4) \<longleftrightarrow> box_in_image cat_box size_4x4)
   \<and> (list_all in_unit (fraction_points blob_contour size_4x4)
        \<longleftrightarrow> list_all (point_in_image size_4x4) blob_contour)"
proof -
  have od: "process_object_detection_results [''cat'', ''dog''] [[[cat_box], []]] [size_4x4]
              = Inr [[cat_od]]"
    by (simp add: rows_with_labels_def normalized_box_def py_div_def class_name_def cat_box_def
          size_4x4_def cat_od_def)
  have seg: "process_instance_segmentation_results (\<lambda>contour. [contour]) [''cat''] cat_batch [size_4x4]
              = Inr [[cat_is]]"
    by (simp add: rows_with_labels_def normalized_box_def py_div_def class_name_def
          remove_invalid_segments_def blob_contour_def Let_def cat_box_def size_4x4_def cat_is_def
          cat_batch_def)
  have h1: "process_object_detection_results [''cat'', ''dog''] [[[cat_box], []]] [size_4x4]
              = Inr [[cat_od]] \<and> 0 < length [[cat_od]] \<and> cat_od \<in> set ([[cat_od]] ! 0)"
    using od by simp
  have h2: "process_instance_segmentation_results (\<lambda>contour. [contour]) [''cat''] cat_batch [size_4x4]
              = Inr [[cat_is]] \<and> 0 < length [[cat_is]] \<and> cat_is \<in> set ([[cat_is]] ! 0)"
    using seg by simp
  have h3: "1 \<le> fst size_4x4 \<and> 1 \<le> snd size_4x4" by (simp add: size_4x4_def)
  note t = coordinates_are_fractions
  note c1 = t[THEN conjunct1, rule_format, OF h1]
  note c2 = t[THEN conjunct2, THEN conjunct1, rule_format, OF h2]
  note c3 = t[where image_size = size_4x4 and b = cat_box and points = blob_contour,
              THEN conjunct2, THEN conjunct2, rule_format, OF h3]
  from od seg c1 c2 h3 c3 show ?thesis by (intro conjI) (simp_all only: simp_thms)
qed

text \<open>
  Claim C9: no polygon with fewer than 3 points (6 coordinates) is in the output; every
  segment the filter drops has fewer than 6 coordinates and every segment it keeps has at
  least 6.

  The filter counts the points of a segment, not its coordinates: it runs on the contours
  before they are flattened.  The contour of a block of 2 by 2 pixels has 4 points, that
  is 8 coordinates; the filter drops it, and the detection with it.
\<close>

theorem square_polygon_is_dropped:
  "remove_invalid_segments [square_contour] = []
   \<and> length (fraction_points square_contour (4, 4)) = 8
   \<and> process_instance_segmentation_results (\<lambda>contour. [contour]) [''cat'']
        [([[(1, 1, 3, 3, 9 / 10)]], [[square_contour]])] [(4, 4)]
      = Inr [[]]"
  by (simp add: remove_invalid_segments_def square_contour_def fraction_points_def
        rows_with_labels_def Let_def)

end
